theory Spec2Isabelle
  imports Main "HOL-Library.Char_ord" "HOL-Library.List_Lexorder"
begin

section \<open>goforecast: geocode an address, resolve the API key, fetch the forecast\<close>

text \<open>
  A shallow embedding of \<^verbatim>\<open>goforecast.go\<close>. Go strings are byte sequences and are
  modelled as \<^typ>\<open>string\<close> (a list of 8-bit characters). The functions of the program
  keep their names. What the program reaches through the standard library (the file
  system, the environment, the HTTP client, \<^verbatim>\<open>encoding/json\<close>, \<^verbatim>\<open>net/url\<close>,
  \<^verbatim>\<open>fmt\<close>) is written out as far as the program exercises it, and each such
  definition says which library behaviour it stands for.
\<close>

subsection \<open>Errors and results\<close>

text \<open>
  \<^verbatim>\<open>errno\<close> lists error numbers a system call on an existing path may report. The
  error of \<^verbatim>\<open>os.Open\<close> on a missing file (a \<^verbatim>\<open>*PathError\<close> holding ENOENT) is the
  constructor \<open>NotExist\<close> of its own, because it is the one error that
  \<^verbatim>\<open>os.IsNotExist\<close> recognises.
\<close>

datatype errno = EACCES | EISDIR | EIO | ENOSPC | EROFS

datatype error =
    MissingAddress          \<comment> \<open>\<^verbatim>\<open>fmt.Errorf("missing address")\<close>\<close>
  | ErrorString string      \<comment> \<open>\<^verbatim>\<open>errors.New\<close> in \<^verbatim>\<open>net/url\<close>, with its message\<close>
  | EscapeError string      \<comment> \<open>\<^verbatim>\<open>url.EscapeError\<close>, with the escape that is refused\<close>
  | InvalidHostError string \<comment> \<open>\<^verbatim>\<open>url.InvalidHostError\<close>, with the byte a host may not hold\<close>
  | InvalidPortError string \<comment> \<open>\<^verbatim>\<open>fmt.Errorf("invalid port %q after host", colonPort)\<close>\<close>
  | InvalidMethodError string \<comment> \<open>\<^verbatim>\<open>fmt.Errorf("net/http: invalid method %q", method)\<close>\<close>
  | URLError string error   \<comment> \<open>\<^verbatim>\<open>*url.Error\<close> of \<^verbatim>\<open>url.Parse\<close>: the text parsed and the cause\<close>
  | TransportError string   \<comment> \<open>whatever \<^verbatim>\<open>client.Do\<close> reports\<close>
  | UnexpectedStatus int    \<comment> \<open>\<^verbatim>\<open>fmt.Errorf("on request: got code %d", code)\<close>\<close>
  | SyntaxError             \<comment> \<open>\<^verbatim>\<open>*json.SyntaxError\<close>: the text is not JSON\<close>
  | UnmarshalTypeError      \<comment> \<open>\<^verbatim>\<open>*json.UnmarshalTypeError\<close>: a value of the wrong JSON type\<close>
  | NoResults               \<comment> \<open>\<^verbatim>\<open>fmt.Errorf("no geocoding results returned")\<close>\<close>
  | NotExist                \<comment> \<open>\<^verbatim>\<open>*PathError\<close> of \<^verbatim>\<open>os.Open\<close>: no such file\<close>
  | PathError string errno  \<comment> \<open>any other \<^verbatim>\<open>*PathError\<close>: the operation and its errno\<close>
  | MissingKey              \<comment> \<open>\<^verbatim>\<open>fmt.Errorf("could not find Forecast IO API key. ...")\<close>\<close>
  | ForecastError string    \<comment> \<open>whatever \<^verbatim>\<open>forecast.Get\<close> reports\<close>

text \<open>\<^verbatim>\<open>os.IsNotExist\<close>, on the errors above.\<close>

fun IsNotExist :: "error \<Rightarrow> bool" where
  "IsNotExist NotExist = True"
| "IsNotExist _ = False"

text \<open>
  A Go call returns a value, returns an error, or panics (a nil pointer is
  dereferenced). Functions that cannot panic return \<open>error + 'a\<close>.
\<close>

datatype 'a result = Ok 'a | Err error | Panic

subsection \<open>Strings coerced to valid UTF-8\<close>

text \<open>
  \<^verbatim>\<open>utf8.DecodeRuneInString\<close>: the width of the well-formed UTF-8 sequence at the head
  of the string, or 0 where Go answers \<^verbatim>\<open>(RuneError, 1)\<close>: a byte that starts no
  sequence, a sequence cut short, an overlong form, a surrogate, a value beyond
  U+10FFFF.
\<close>

definition byte :: "char \<Rightarrow> nat" where
  "byte c = of_char c"

definition inRange :: "nat \<Rightarrow> nat \<Rightarrow> char \<Rightarrow> bool" where
  "inRange lo hi c = (lo \<le> byte c \<and> byte c \<le> hi)"

fun runeLen :: "string \<Rightarrow> nat" where
  "runeLen [] = 0"
| "runeLen (c0 # cs) =
     (let b0 = byte c0 in
      if b0 < 0x80 then 1
      else if b0 < 0xC2 then 0
      else if b0 < 0xE0 then
        (case cs of
           c1 # _ \<Rightarrow> if inRange 0x80 0xBF c1 then 2 else 0
         | _ \<Rightarrow> 0)
      else if b0 < 0xF0 then
        (case cs of
           c1 # c2 # _ \<Rightarrow>
             if inRange (if b0 = 0xE0 then 0xA0 else 0x80) (if b0 = 0xED then 0x9F else 0xBF) c1
                \<and> inRange 0x80 0xBF c2
             then 3 else 0
         | _ \<Rightarrow> 0)
      else if b0 < 0xF5 then
        (case cs of
           c1 # c2 # c3 # _ \<Rightarrow>
             if inRange (if b0 = 0xF0 then 0x90 else 0x80) (if b0 = 0xF4 then 0x8F else 0xBF) c1
                \<and> inRange 0x80 0xBF c2 \<and> inRange 0x80 0xBF c3
             then 4 else 0
         | _ \<Rightarrow> 0)
      else 0)"

text \<open>U+FFFD, the replacement character, in UTF-8.\<close>

definition replacementChar :: string where
  "replacementChar = [CHR 0xEF, CHR 0xBF, CHR 0xBD]"

text \<open>
  What \<^verbatim>\<open>encoding/json\<close> does to a Go string on both ways: \<^verbatim>\<open>Marshal\<close> writes the
  escape of U+FFFD for every byte that \<^verbatim>\<open>DecodeRuneInString\<close> rejects, and
  \<^verbatim>\<open>Unmarshal\<close> stores U+FFFD for every such byte of a string literal. Well-formed
  sequences are kept as they are.
\<close>

function coerceUTF8 :: "string \<Rightarrow> string" where
  "coerceUTF8 [] = []"
| "coerceUTF8 (c # cs) =
     (if runeLen (c # cs) = 0 then replacementChar @ coerceUTF8 cs
      else take (runeLen (c # cs)) (c # cs) @ coerceUTF8 (drop (runeLen (c # cs)) (c # cs)))"
  by pat_completeness auto
termination
  by (relation "measure length") auto

subsection \<open>JSON values\<close>

text \<open>
  \<^verbatim>\<open>float64\<close>: a finite value is \<open>(-1)\<^sup>s \<sqdot> m \<sqdot> 2\<^sup>e\<close>, kept as sign, magnitude and
  exponent (the sign of a zero is kept too, as Go keeps it).
\<close>

datatype float64 = Finite bool nat int | Inf bool | NaN

text \<open>
  The byte-level syntax of JSON is not modelled: a text is represented by the value it
  denotes. A string holds the bytes of the literal after its escapes are resolved; a
  number holds the \<^verbatim>\<open>float64\<close> that \<^verbatim>\<open>strconv.ParseFloat\<close> gives for the literal
  (\<open>None\<close> when it is out of range); an object keeps its members in the order of the
  text, duplicates included. A text that is not JSON is \<open>NotJSON\<close>.
\<close>

datatype json =
    JNull
  | JBool bool
  | JNumber "float64 option"
  | JString string
  | JArray "json list"
  | JObject "(string \<times> json) list"

datatype payload = JSONText json | NotJSON

text \<open>
  How \<^verbatim>\<open>encoding/json\<close> matches an object key \<open>t\<close> against the name \<open>s\<close> of a struct
  field (an ASCII name): byte for byte, where letters match in either case, and where
  the letters k and s also match the Kelvin sign U+212A and the long s U+017F.
\<close>

definition isLetter :: "char \<Rightarrow> bool" where
  "isLetter c = (inRange 0x41 0x5A c \<or> inRange 0x61 0x7A c)"

definition upper :: "char \<Rightarrow> nat" where
  "upper c = (if inRange 0x61 0x7A c then byte c - 0x20 else byte c)"

fun equalFold :: "string \<Rightarrow> string \<Rightarrow> bool" where
  "equalFold [] t = (t = [])"
| "equalFold (sb # s) [] = False"
| "equalFold (sb # s) (tb # t) =
     (if byte tb < 0x80 then
        (sb = tb \<or> (isLetter sb \<and> isLetter tb \<and> upper sb = upper tb)) \<and> equalFold s t
      else if sb = CHR ''s'' \<or> sb = CHR ''S'' then
        (case t of t1 # t' \<Rightarrow> tb = CHR 0xC5 \<and> t1 = CHR 0xBF \<and> equalFold s t' | _ \<Rightarrow> False)
      else if sb = CHR ''k'' \<or> sb = CHR ''K'' then
        (case t of
           t1 # t2 # t' \<Rightarrow> tb = CHR 0xE2 \<and> t1 = CHR 0x84 \<and> t2 = CHR 0xAA \<and> equalFold s t'
         | _ \<Rightarrow> False)
      else False)"

text \<open>Decoding a JSON value into a \<^verbatim>\<open>string\<close> field that holds \<open>cur\<close>: null leaves it.\<close>

fun unmarshalString :: "json \<Rightarrow> string \<Rightarrow> error + string" where
  "unmarshalString JNull cur = Inr cur"
| "unmarshalString (JString s) cur = Inr (coerceUTF8 s)"
| "unmarshalString _ cur = Inl UnmarshalTypeError"

subsection \<open>The persisted state\<close>

record forecastIoState =
  ApiKey :: string

text \<open>
  \<^verbatim>\<open>json.Unmarshal(b, &state)\<close> with \<^verbatim>\<open>state *forecastIoState\<close>: the members are
  decoded in order into the field tagged \<^verbatim>\<open>api_key\<close>, other members are skipped,
  a later member overwrites an earlier one; null leaves the pointer nil.
\<close>

fun stateMembers :: "(string \<times> json) list \<Rightarrow> forecastIoState \<Rightarrow> error + forecastIoState" where
  "stateMembers [] st = Inr st"
| "stateMembers ((k, v) # ms) st =
     (if equalFold ''api_key'' k then
        (case unmarshalString v (ApiKey st) of
           Inl e \<Rightarrow> Inl e
         | Inr s \<Rightarrow> stateMembers ms (st\<lparr>ApiKey := s\<rparr>))
      else stateMembers ms st)"

fun unmarshalState :: "json \<Rightarrow> error + forecastIoState option" where
  "unmarshalState JNull = Inr None"
| "unmarshalState (JObject ms) =
     (case stateMembers ms \<lparr>ApiKey = []\<rparr> of Inl e \<Rightarrow> Inl e | Inr st \<Rightarrow> Inr (Some st))"
| "unmarshalState _ = Inl UnmarshalTypeError"

text \<open>
  \<^verbatim>\<open>json.Marshal(state)\<close>: the text \<^verbatim>\<open>{"api_key":"..."}\<close>, whose string literal denotes
  the key coerced to valid UTF-8.
\<close>

definition marshalState :: "forecastIoState \<Rightarrow> json" where
  "marshalState st = JObject [(''api_key'', JString (coerceUTF8 (ApiKey st)))]"

subsection \<open>The forecast library and the world\<close>

text \<open>
  \<^verbatim>\<open>forecast.Get(key, lat, long, time, units)\<close> of the external library is opaque: a
  call is recorded with its arguments, and the service answers with a forecast or an
  error.
\<close>

datatype Units = CA | SI | US | UK | AUTO

record DataPoint =
  Summary :: string
  Temperature :: float64
  Pressure :: float64
  WindSpeed :: float64
  PrecipProbability :: float64

record Forecast =
  Currently :: DataPoint

record forecastCall =
  callKey :: string
  callLat :: string
  callLong :: string
  callTime :: string
  callUnits :: Units

text \<open>
  What the program reads and changes outside itself: the state file
  \<^verbatim>\<open>$HOME/.goforecast\<close> (\<open>None\<close> when it does not exist), the failures the file
  system may answer with (opening the file for reading, reading it, opening it for
  writing, writing it), the environment, the forecast service and the calls made to
  it so far.
\<close>

record world =
  stateFile :: "payload option"
  openFault :: "errno option"
  readFault :: "errno option"
  createFault :: "errno option"
  writeFault :: "errno option"
  environ :: "string \<rightharpoonup> string"
  forecastService :: "forecastCall \<Rightarrow> error + Forecast"
  calls :: "forecastCall list"

definition forecastIoEnvKey :: string where
  "forecastIoEnvKey = ''FORECAST_IO_API_KEY''"

text \<open>\<^verbatim>\<open>os.Getenv\<close>: the empty string for a variable that is not set.\<close>

definition Getenv :: "world \<Rightarrow> string \<Rightarrow> string" where
  "Getenv w name = (case environ w name of None \<Rightarrow> [] | Some v \<Rightarrow> v)"

subsection \<open>Reading and writing the state file\<close>

text \<open>
  \<^verbatim>\<open>restoreState\<close>: \<^verbatim>\<open>os.Open\<close>, \<^verbatim>\<open>ioutil.ReadAll\<close>, \<^verbatim>\<open>json.Unmarshal\<close>; the first
  failure is returned. The state is a pointer, nil (\<open>None\<close>) when the file holds
  \<^verbatim>\<open>null\<close>.
\<close>

definition restoreState :: "world \<Rightarrow> error + forecastIoState option" where
  "restoreState w =
     (case stateFile w of
        None \<Rightarrow> Inl NotExist
      | Some b \<Rightarrow>
          (case openFault w of
             Some en \<Rightarrow> Inl (PathError ''open'' en)
           | None \<Rightarrow>
               (case readFault w of
                  Some en \<Rightarrow> Inl (PathError ''read'' en)
                | None \<Rightarrow>
                    (case b of
                       NotJSON \<Rightarrow> Inl SyntaxError
                     | JSONText j \<Rightarrow> unmarshalState j))))"

text \<open>
  \<^verbatim>\<open>dumpState\<close>: \<^verbatim>\<open>json.Marshal\<close> (which cannot fail on this struct), then
  \<^verbatim>\<open>ioutil.WriteFile\<close>, which opens the file with \<^verbatim>\<open>O_CREATE|O_TRUNC\<close> and writes.
  When the open fails the file is untouched; when the write fails the file is left
  truncated, which is not JSON. Returns the error (\<open>None\<close> for nil) and the new world.
\<close>

definition dumpState :: "forecastIoState \<Rightarrow> world \<Rightarrow> error option \<times> world" where
  "dumpState state w =
     (let b = marshalState state in
      case createFault w of
        Some en \<Rightarrow> (Some (PathError ''open'' en), w)
      | None \<Rightarrow>
          (case writeFault w of
             Some en \<Rightarrow> (Some (PathError ''write'' en), w\<lparr>stateFile := Some NotJSON\<rparr>)
           | None \<Rightarrow> (None, w\<lparr>stateFile := Some (JSONText b)\<rparr>)))"

subsection \<open>Key resolution\<close>

text \<open>
  \<^verbatim>\<open>getForecastIOKey\<close>: the key of the state file when there is one, the environment
  variable otherwise. \<open>fromEnv\<close> is the tail of the function, reached from three places.
\<close>

definition getForecastIOKey :: "world \<Rightarrow> error + string" where
  "getForecastIOKey w =
     (let fromEnv =
        (let k = Getenv w forecastIoEnvKey in
         if k = [] then Inl MissingKey else Inr k)
      in case restoreState w of
        Inl err \<Rightarrow> if \<not> IsNotExist err then Inl err else fromEnv
      | Inr state \<Rightarrow>
          (case state of
             Some st \<Rightarrow> if ApiKey st \<noteq> [] then Inr (ApiKey st) else fromEnv
           | None \<Rightarrow> fromEnv))"

subsection \<open>Coordinates and their two-decimal form\<close>

record location =
  Lat :: float64
  Lng :: float64

record geometry =
  Location :: "location option"

record geocodingResult =
  Geometry :: "geometry option"

record geocodingResponse =
  Results :: "geocodingResult list"

definition digit :: "nat \<Rightarrow> char" where
  "digit n = ''0123456789'' ! n"

fun decimal :: "nat \<Rightarrow> string" where
  "decimal n = (if n < 10 then [digit n] else decimal (n div 10) @ [digit (n mod 10)])"

declare decimal.simps [simp del]

text \<open>The integer nearest to \<open>a / d\<close>; a tie goes to the even neighbour.\<close>

definition roundHalfEven :: "nat \<Rightarrow> nat \<Rightarrow> nat" where
  "roundHalfEven a d =
     (let q = a div d; r = a mod d in
      if 2 * r < d then q
      else if d < 2 * r then q + 1
      else if even q then q else q + 1)"

text \<open>\<open>m \<sqdot> 2\<^sup>e \<sqdot> 100\<close> as an integer, rounded when it is not one.\<close>

definition hundredths :: "nat \<Rightarrow> int \<Rightarrow> nat" where
  "hundredths m e =
     (if 0 \<le> e then m * 2 ^ nat e * 100 else roundHalfEven (m * 100) (2 ^ nat (- e)))"

text \<open>
  \<^verbatim>\<open>fmt.Sprintf("%.2f", x)\<close>: \<^verbatim>\<open>strconv\<close> rounds the exact binary value to two
  decimals (to nearest, ties to even) and prints the sign bit, the integer digits, a
  point and two digits.
\<close>

fun Sprintf_2f :: "float64 \<Rightarrow> string" where
  "Sprintf_2f (Finite s m e) =
     (let n = hundredths m e in
      (if s then ''-'' else []) @ decimal (n div 100) @ ''.''
        @ [digit (n div 10 mod 10), digit (n mod 10)])"
| "Sprintf_2f (Inf s) = (if s then ''-Inf'' else ''+Inf'')"
| "Sprintf_2f NaN = ''NaN''"

text \<open>
  The wording of the specification, for comparison: the value cut off after two
  decimal digits.
\<close>

definition spec_truncated_2f :: "bool \<Rightarrow> nat \<Rightarrow> int \<Rightarrow> string" where
  "spec_truncated_2f s m e =
     (let n = (if 0 \<le> e then m * 2 ^ nat e * 100 else (m * 100) div 2 ^ nat (- e)) in
      (if s then ''-'' else []) @ decimal (n div 100) @ ''.''
        @ [digit (n div 10 mod 10), digit (n mod 10)])"

subsection \<open>Fetching the forecast\<close>

definition forecast_Get ::
  "string \<Rightarrow> string \<Rightarrow> string \<Rightarrow> string \<Rightarrow> Units \<Rightarrow> world \<Rightarrow> Forecast result \<times> world" where
  "forecast_Get key lat long time units w =
     (let c = \<lparr>callKey = key, callLat = lat, callLong = long, callTime = time, callUnits = units\<rparr>
      in (case forecastService w c of Inl err \<Rightarrow> Err err | Inr f \<Rightarrow> Ok f,
          w\<lparr>calls := calls w @ [c]\<rparr>))"

text \<open>
  \<^verbatim>\<open>getForecast\<close>. The location is a pointer; the arguments of \<^verbatim>\<open>forecast.Get\<close> are
  evaluated before the call, so a nil location panics at \<^verbatim>\<open>loc.Lat\<close>, after the state
  has been written.
\<close>

definition getForecast :: "location option \<Rightarrow> world \<Rightarrow> Forecast result \<times> world" where
  "getForecast loc w =
     (case getForecastIOKey w of
        Inl err \<Rightarrow> (Err err, w)
      | Inr key \<Rightarrow>
          (case dumpState \<lparr>ApiKey = key\<rparr> w of
             (Some err, w') \<Rightarrow> (Err err, w')
           | (None, w') \<Rightarrow>
               (case loc of
                  None \<Rightarrow> (Panic, w')
                | Some l \<Rightarrow>
                    forecast_Get key (Sprintf_2f (Lat l)) (Sprintf_2f (Lng l)) ''now'' US w')))"

lemma dumpState_calls: "calls (snd (dumpState st w)) = calls w"
  by (simp add: dumpState_def Let_def split: option.splits)

lemma dumpState_ok_file:
  "dumpState st w = (None, w') \<Longrightarrow> stateFile w' = Some (JSONText (marshalState st))"
  by (auto simp: dumpState_def Let_def split: option.splits)

subsection \<open>Properties of key resolution\<close>

lemma restoreState_environ [simp]: "restoreState (w\<lparr>environ := env\<rparr>) = restoreState w"
  by (simp add: restoreState_def split: option.splits)

text \<open>
  Claim C4. When the state file is read without error and holds a non-empty key, key
  resolution returns that key whatever the environment holds: for any two
  environments the result is the same, the key of the state file.
\<close>

theorem stored_key_ignores_environment:
  assumes "restoreState w = Inr (Some st)" and "ApiKey st \<noteq> []"
  shows "getForecastIOKey (w\<lparr>environ := env1\<rparr>) = Inr (ApiKey st)
       \<and> getForecastIOKey (w\<lparr>environ := env2\<rparr>) = getForecastIOKey (w\<lparr>environ := env1\<rparr>)"
  using assms by (simp add: getForecastIOKey_def)

definition demoWorld :: world where
  "demoWorld =
     \<lparr>stateFile = Some (JSONText (JObject [(''api_key'', JString ''abc'')])),
      openFault = None, readFault = None, createFault = None, writeFault = None,
      environ = Map.empty,
      forecastService = (\<lambda>c. Inl (ForecastError ''offline'')),
      calls = []\<rparr>"

lemma restoreState_demoWorld: "restoreState demoWorld = Inr (Some \<lparr>ApiKey = ''abc''\<rparr>)"
  by (simp add: demoWorld_def restoreState_def byte_def)

theorem stored_key_ignores_environment_witness:
  "getForecastIOKey (demoWorld\<lparr>environ := Map.empty\<rparr>) = Inr ''abc''
   \<and> getForecastIOKey (demoWorld\<lparr>environ := [forecastIoEnvKey \<mapsto> ''xyz'']\<rparr>) = Inr ''abc''"
  using stored_key_ignores_environment [OF restoreState_demoWorld, of Map.empty "[forecastIoEnvKey \<mapsto> ''xyz'']"]
    stored_key_ignores_environment [OF restoreState_demoWorld, of "[forecastIoEnvKey \<mapsto> ''xyz'']" Map.empty]
  by simp

text \<open>
  Claim C7. When reading the state file fails because the file does not exist, key
  resolution goes on to the environment variable; when it fails in any other way (the
  file cannot be opened, cannot be read, is not JSON, or holds JSON of the wrong
  shape), key resolution returns that very error, and \<^verbatim>\<open>getForecast\<close> returns it
  without writing the state file or calling the forecast library.
\<close>

theorem state_read_failures:
  "(stateFile w = None \<longrightarrow>
      restoreState w = Inl NotExist \<and>
      getForecastIOKey w =
        (if Getenv w forecastIoEnvKey = [] then Inl MissingKey
         else Inr (Getenv w forecastIoEnvKey)))
   \<and> (\<forall>b en. stateFile w = Some b \<and> openFault w = Some en \<longrightarrow>
        getForecastIOKey w = Inl (PathError ''open'' en))
   \<and> (\<forall>b en. stateFile w = Some b \<and> openFault w = None \<and> readFault w = Some en \<longrightarrow>
        getForecastIOKey w = Inl (PathError ''read'' en))
   \<and> (stateFile w = Some NotJSON \<and> openFault w = None \<and> readFault w = None \<longrightarrow>
        getForecastIOKey w = Inl SyntaxError)
   \<and> (\<forall>err. restoreState w = Inl err \<and> err \<noteq> NotExist \<longrightarrow>
        getForecastIOKey w = Inl err \<and> getForecast loc w = (Err err, w))"
proof -
  have other: "getForecastIOKey w = Inl err" if "restoreState w = Inl err" "err \<noteq> NotExist" for err
    using that by (cases err) (simp_all add: getForecastIOKey_def)
  have missing: "restoreState w = Inl NotExist" if "stateFile w = None"
    using that by (simp add: restoreState_def)
  have c1: "getForecastIOKey w =
        (if Getenv w forecastIoEnvKey = [] then Inl MissingKey
         else Inr (Getenv w forecastIoEnvKey))" if "stateFile w = None"
    using missing [OF that] by (simp add: getForecastIOKey_def Let_def)
  have c2: "getForecastIOKey w = Inl (PathError ''open'' en)"
    if "stateFile w = Some b" "openFault w = Some en" for b en
    by (rule other) (simp_all add: restoreState_def that)
  have c3: "getForecastIOKey w = Inl (PathError ''read'' en)"
    if "stateFile w = Some b" "openFault w = None" "readFault w = Some en" for b en
    by (rule other) (simp_all add: restoreState_def that)
  have c4: "getForecastIOKey w = Inl SyntaxError"
    if "stateFile w = Some NotJSON" "openFault w = None" "readFault w = None"
    by (rule other) (simp_all add: restoreState_def that)
  have abort: "getForecast loc w = (Err err, w)" if "restoreState w = Inl err" "err \<noteq> NotExist" for err
    using other [OF that] by (simp add: getForecast_def)
  show ?thesis
    using missing c1 c2 c3 c4 other abort by blast
qed

theorem state_read_failures_witness:
  "getForecastIOKey (demoWorld\<lparr>stateFile := None\<rparr>) = Inl MissingKey
   \<and> getForecastIOKey (demoWorld\<lparr>stateFile := None, environ := [forecastIoEnvKey \<mapsto> ''xyz'']\<rparr>) = Inr ''xyz''
   \<and> getForecastIOKey (demoWorld\<lparr>openFault := Some EACCES, environ := [forecastIoEnvKey \<mapsto> ''xyz'']\<rparr>)
       = Inl (PathError ''open'' EACCES)
   \<and> getForecastIOKey (demoWorld\<lparr>readFault := Some EIO, environ := [forecastIoEnvKey \<mapsto> ''xyz'']\<rparr>)
       = Inl (PathError ''read'' EIO)
   \<and> getForecastIOKey (demoWorld\<lparr>stateFile := Some NotJSON, environ := [forecastIoEnvKey \<mapsto> ''xyz'']\<rparr>)
       = Inl SyntaxError
   \<and> getForecast None (demoWorld\<lparr>stateFile := Some NotJSON, environ := [forecastIoEnvKey \<mapsto> ''xyz'']\<rparr>)
       = (Err SyntaxError, demoWorld\<lparr>stateFile := Some NotJSON, environ := [forecastIoEnvKey \<mapsto> ''xyz'']\<rparr>)"
  using state_read_failures [of "demoWorld\<lparr>stateFile := None\<rparr>"]
    state_read_failures [of "demoWorld\<lparr>stateFile := None, environ := [forecastIoEnvKey \<mapsto> ''xyz'']\<rparr>"]
    state_read_failures [of "demoWorld\<lparr>openFault := Some EACCES, environ := [forecastIoEnvKey \<mapsto> ''xyz'']\<rparr>"]
    state_read_failures [of "demoWorld\<lparr>readFault := Some EIO, environ := [forecastIoEnvKey \<mapsto> ''xyz'']\<rparr>"]
    state_read_failures [of "demoWorld\<lparr>stateFile := Some NotJSON, environ := [forecastIoEnvKey \<mapsto> ''xyz'']\<rparr>" None]
  by (simp add: demoWorld_def Getenv_def restoreState_def)

subsection \<open>Properties of the forecast fetch\<close>

text \<open>
  Claim C3. The forecast library is called only after the resolved key has been
  written to the state file: when the write fails, \<^verbatim>\<open>getForecast\<close> returns that error
  and no call is made; and whenever a call has been made, the state file holds the
  marshalled key.
\<close>

theorem forecast_only_after_state_written:
  "(\<forall>key err w'. getForecastIOKey w = Inr key \<and> dumpState \<lparr>ApiKey = key\<rparr> w = (Some err, w') \<longrightarrow>
      getForecast loc w = (Err err, w') \<and> calls w' = calls w)
   \<and> (calls (snd (getForecast loc w)) \<noteq> calls w \<longrightarrow>
      (\<exists>key. getForecastIOKey w = Inr key
          \<and> fst (dumpState \<lparr>ApiKey = key\<rparr> w) = None
          \<and> stateFile (snd (getForecast loc w)) = Some (JSONText (marshalState \<lparr>ApiKey = key\<rparr>))))"
proof (intro conjI allI impI)
  fix key err w'
  assume a: "getForecastIOKey w = Inr key \<and> dumpState \<lparr>ApiKey = key\<rparr> w = (Some err, w')"
  then show "getForecast loc w = (Err err, w')"
    by (simp add: getForecast_def)
  from a have "w' = snd (dumpState \<lparr>ApiKey = key\<rparr> w)" by simp
  then show "calls w' = calls w" by (simp add: dumpState_calls)
next
  assume changed: "calls (snd (getForecast loc w)) \<noteq> calls w"
  then obtain key where key: "getForecastIOKey w = Inr key"
    by (cases "getForecastIOKey w") (simp_all add: getForecast_def)
  obtain r w' where d: "dumpState \<lparr>ApiKey = key\<rparr> w = (r, w')"
    by (cases "dumpState \<lparr>ApiKey = key\<rparr> w")
  have w': "calls w' = calls w"
    using dumpState_calls [of "\<lparr>ApiKey = key\<rparr>" w] d by simp
  have r: "r = None"
    using changed key d w' by (cases r) (simp_all add: getForecast_def)
  obtain l where l: "loc = Some l"
    using changed key d w' r by (cases loc) (simp_all add: getForecast_def)
  have "stateFile (snd (getForecast loc w)) = stateFile w'"
    by (simp add: getForecast_def key d r l forecast_Get_def Let_def)
  with dumpState_ok_file [of "\<lparr>ApiKey = key\<rparr>" w w'] d r key
  show "\<exists>key. getForecastIOKey w = Inr key
          \<and> fst (dumpState \<lparr>ApiKey = key\<rparr> w) = None
          \<and> stateFile (snd (getForecast loc w)) = Some (JSONText (marshalState \<lparr>ApiKey = key\<rparr>))"
    by auto
qed

lemma key_demo: "getForecastIOKey demoWorld = Inr ''abc''"
  by (simp add: getForecastIOKey_def restoreState_demoWorld)

lemma dump_demo: "dumpState \<lparr>ApiKey = ''abc''\<rparr> demoWorld = (None, demoWorld)"
  by (simp add: dumpState_def demoWorld_def marshalState_def byte_def)

theorem forecast_only_after_state_written_witness:
  "getForecast (Some \<lparr>Lat = Finite False 11 (- 4), Lng = Finite True 7 (- 3)\<rparr>) (demoWorld\<lparr>writeFault := Some ENOSPC\<rparr>)
     = (Err (PathError ''write'' ENOSPC), demoWorld\<lparr>writeFault := Some ENOSPC, stateFile := Some NotJSON\<rparr>)
   \<and> calls (demoWorld\<lparr>writeFault := Some ENOSPC, stateFile := Some NotJSON\<rparr>) = []"
proof -
  have k: "getForecastIOKey (demoWorld\<lparr>writeFault := Some ENOSPC\<rparr>) = Inr ''abc''"
    by (simp add: getForecastIOKey_def restoreState_def demoWorld_def byte_def)
  have d: "dumpState \<lparr>ApiKey = ''abc''\<rparr> (demoWorld\<lparr>writeFault := Some ENOSPC\<rparr>)
      = (Some (PathError ''write'' ENOSPC), demoWorld\<lparr>writeFault := Some ENOSPC, stateFile := Some NotJSON\<rparr>)"
    by (simp add: dumpState_def demoWorld_def)
  show ?thesis
    using forecast_only_after_state_written [of "demoWorld\<lparr>writeFault := Some ENOSPC\<rparr>"
        "Some \<lparr>Lat = Finite False 11 (- 4), Lng = Finite True 7 (- 3)\<rparr>"] k d
    by (simp add: demoWorld_def)
qed

lemma roundHalfEven_nearest:
  assumes "0 < d"
  shows "2 * \<bar>int (roundHalfEven a d) * int d - int a\<bar> \<le> int d"
proof -
  define q r where "q = a div d" and "r = a mod d"
  have a: "int a = int q * int d + int r"
    unfolding q_def r_def by (metis div_mult_mod_eq of_nat_add of_nat_mult)
  have r: "r < d" using assms by (simp add: r_def)
  show ?thesis
    unfolding roundHalfEven_def Let_def q_def [symmetric] r_def [symmetric]
    using r by (auto simp: a algebra_simps)
qed

lemma roundHalfEven_tie:
  assumes "0 < d" "2 * \<bar>int (roundHalfEven a d) * int d - int a\<bar> = int d"
  shows "even (roundHalfEven a d)"
proof -
  define q r where "q = a div d" and "r = a mod d"
  have a: "int a = int q * int d + int r"
    unfolding q_def r_def by (metis div_mult_mod_eq of_nat_add of_nat_mult)
  have r: "r < d" using assms by (simp add: r_def)
  show ?thesis
    using assms(2) r
    unfolding roundHalfEven_def Let_def q_def [symmetric] r_def [symmetric]
    by (auto simp: a algebra_simps split: if_splits)
qed

text \<open>
  Claim C9, as amended. Once the key is resolved and written, the forecast library is
  called exactly once, with the key, the latitude and the longitude each as
  \<^verbatim>\<open>%.2f\<close> text, the time token \<^verbatim>\<open>now\<close> and the US units. For a finite coordinate
  that text is the sign, the integer digits, a point and two digits, of the value
  rounded to the nearest hundredth (a tie goes to the even hundredth): it is not the
  value cut off after two decimals.
\<close>

theorem forecast_call_arguments:
  assumes "getForecastIOKey w = Inr key" and "dumpState \<lparr>ApiKey = key\<rparr> w = (None, w')"
  shows "calls (snd (getForecast (Some l) w)) =
           calls w @ [\<lparr>callKey = key, callLat = Sprintf_2f (Lat l), callLong = Sprintf_2f (Lng l),
                       callTime = ''now'', callUnits = US\<rparr>]
       \<and> (\<forall>s m e. \<exists>n.
            Sprintf_2f (Finite s m e) =
              (if s then ''-'' else []) @ decimal (n div 100) @ ''.''
                @ [digit (n div 10 mod 10), digit (n mod 10)]
            \<and> (0 \<le> e \<longrightarrow> n = m * 2 ^ nat e * 100)
            \<and> (e < 0 \<longrightarrow>
                 2 * \<bar>int n * 2 ^ nat (- e) - int m * 100\<bar> \<le> 2 ^ nat (- e)
                 \<and> (2 * \<bar>int n * 2 ^ nat (- e) - int m * 100\<bar> = 2 ^ nat (- e) \<longrightarrow> even n)))"
proof (intro conjI allI)
  have "calls w' = calls w"
    using dumpState_calls [of "\<lparr>ApiKey = key\<rparr>" w] assms(2) by simp
  then show "calls (snd (getForecast (Some l) w)) =
           calls w @ [\<lparr>callKey = key, callLat = Sprintf_2f (Lat l), callLong = Sprintf_2f (Lng l),
                       callTime = ''now'', callUnits = US\<rparr>]"
    by (simp add: getForecast_def assms forecast_Get_def Let_def)
next
  fix s m e
  let ?n = "hundredths m e"
  have pos: "0 < (2::nat) ^ nat (- e)" by simp
  have near: "2 * \<bar>int ?n * 2 ^ nat (- e) - int m * 100\<bar> \<le> 2 ^ nat (- e)" if "e < 0"
    using roundHalfEven_nearest [OF pos, of "m * 100"] that by (simp add: hundredths_def)
  have tie: "even ?n" if "e < 0" "2 * \<bar>int ?n * 2 ^ nat (- e) - int m * 100\<bar> = 2 ^ nat (- e)"
    using roundHalfEven_tie [OF pos, of "m * 100"] that by (simp add: hundredths_def)
  have exact: "?n = m * 2 ^ nat e * 100" if "0 \<le> e"
    using that by (simp add: hundredths_def)
  show "\<exists>n. Sprintf_2f (Finite s m e) =
              (if s then ''-'' else []) @ decimal (n div 100) @ ''.''
                @ [digit (n div 10 mod 10), digit (n mod 10)]
            \<and> (0 \<le> e \<longrightarrow> n = m * 2 ^ nat e * 100)
            \<and> (e < 0 \<longrightarrow>
                 2 * \<bar>int n * 2 ^ nat (- e) - int m * 100\<bar> \<le> 2 ^ nat (- e)
                 \<and> (2 * \<bar>int n * 2 ^ nat (- e) - int m * 100\<bar> = 2 ^ nat (- e) \<longrightarrow> even n))"
    by (rule exI [of _ ?n]) (use near tie exact in \<open>simp add: Let_def\<close>)
qed

theorem forecast_call_arguments_witness:
  "calls (snd (getForecast (Some \<lparr>Lat = Finite False 11 (- 4), Lng = Finite True 7 (- 3)\<rparr>) demoWorld)) =
     [\<lparr>callKey = ''abc'', callLat = ''0.69'', callLong = ''-0.88'', callTime = ''now'', callUnits = US\<rparr>]"
  using forecast_call_arguments [OF key_demo dump_demo, of "\<lparr>Lat = Finite False 11 (- 4), Lng = Finite True 7 (- 3)\<rparr>"]
  by (simp add: demoWorld_def hundredths_def roundHalfEven_def Let_def decimal.simps digit_def)

text \<open>
  Claim C9 as stated fails at the latitude \<open>11 \<sqdot> 2\<^sup>-\<^sup>4 = 0.6875\<close>: the call carries
  \<^verbatim>\<open>0.69\<close>, and truncation to two decimal digits would give \<^verbatim>\<open>0.68\<close>.
\<close>

theorem coordinates_rounded_not_truncated:
  "calls (snd (getForecast (Some \<lparr>Lat = Finite False 11 (- 4), Lng = Finite False 0 0\<rparr>) demoWorld)) =
     [\<lparr>callKey = ''abc'', callLat = ''0.69'', callLong = ''0.00'', callTime = ''now'', callUnits = US\<rparr>]
   \<and> spec_truncated_2f False 11 (- 4) = ''0.68''"
proof -
  have "calls demoWorld = []" by (simp add: demoWorld_def)
  then show ?thesis
    by (simp add: getForecast_def key_demo dump_demo forecast_Get_def
      hundredths_def roundHalfEven_def spec_truncated_2f_def Let_def decimal.simps digit_def)
qed

subsection \<open>The state file written and read back\<close>

text \<open>\<^verbatim>\<open>utf8.ValidString\<close>: the string is a sequence of well-formed UTF-8 sequences.\<close>

function ValidString :: "string \<Rightarrow> bool" where
  "ValidString [] = True"
| "ValidString (c # cs) =
     (if runeLen (c # cs) = 0 then False
      else ValidString (drop (runeLen (c # cs)) (c # cs)))"
  by pat_completeness auto
termination
  by (relation "measure length") auto

lemma runeLen_le: "runeLen s \<le> length s"
  by (cases s) (auto simp: Let_def split: list.splits)

lemma runeLen_prefix:
  assumes "runeLen s = n" "0 < n"
  shows "runeLen (take n s @ t) = n"
proof (cases s)
  case Nil
  with assms show ?thesis by simp
next
  case (Cons c0 cs)
  with assms show ?thesis
    by (auto simp: Let_def split: if_splits list.splits)
qed

lemma runeLen_replacement: "runeLen (replacementChar @ t) = 3"
  by (simp add: replacementChar_def byte_def inRange_def)

lemma coerceUTF8_prefix:
  assumes "runeLen s = n" "0 < n"
  shows "coerceUTF8 (take n s @ t) = take n s @ coerceUTF8 t"
proof -
  obtain c cs where s: "take n s @ t = c # cs"
    using assms by (cases s) (auto simp: take_Cons' )
  have len: "length (take n s) = n"
    using runeLen_le [of s] assms by simp
  have r: "runeLen (c # cs) = n"
    using runeLen_prefix [OF assms, of t] s by simp
  have "coerceUTF8 (c # cs) = take n (c # cs) @ coerceUTF8 (drop n (c # cs))"
    using r assms(2) by simp
  then show ?thesis
    using len by (simp add: s [symmetric])
qed

lemma coerceUTF8_replacement: "coerceUTF8 (replacementChar @ t) = replacementChar @ coerceUTF8 t"
  using coerceUTF8_prefix [of "replacementChar" 3 t] runeLen_replacement [of "[]"]
  by (simp add: replacementChar_def)

lemma coerceUTF8_idem: "coerceUTF8 (coerceUTF8 s) = coerceUTF8 s"
proof (induction s rule: coerceUTF8.induct)
  case 1
  show ?case by simp
next
  case (2 c cs)
  show ?case
  proof (cases "runeLen (c # cs) = 0")
    case True
    with 2 show ?thesis by (simp add: coerceUTF8_replacement)
  next
    case False
    then have pos: "0 < runeLen (c # cs)" by simp
    from False 2 have IH: "coerceUTF8 (coerceUTF8 (drop (runeLen (c # cs)) (c # cs))) = coerceUTF8 (drop (runeLen (c # cs)) (c # cs))"
      by simp
    have "coerceUTF8 (c # cs) = take (runeLen (c # cs)) (c # cs) @ coerceUTF8 (drop (runeLen (c # cs)) (c # cs))"
      using False by simp
    then show ?thesis
      using coerceUTF8_prefix [OF refl pos, of "coerceUTF8 (drop (runeLen (c # cs)) (c # cs))"] IH
      by simp
  qed
qed

lemma coerceUTF8_valid: "ValidString s \<Longrightarrow> coerceUTF8 s = s"
  by (induction s rule: ValidString.induct) auto

lemma equalFold_api_key: "equalFold ''api_key'' ''api_key''"
  by (simp add: byte_def)

lemma unmarshal_marshalState:
  "unmarshalState (marshalState s) = Inr (Some \<lparr>ApiKey = coerceUTF8 (ApiKey s)\<rparr>)"
  by (simp add: marshalState_def coerceUTF8_idem equalFold_api_key del: equalFold.simps)

lemma stateMembers_coerced:
  "stateMembers ms st0 = Inr st \<Longrightarrow> coerceUTF8 (ApiKey st0) = ApiKey st0
     \<Longrightarrow> coerceUTF8 (ApiKey st) = ApiKey st"
proof (induction ms st0 rule: stateMembers.induct)
  case (1 st0)
  then show ?case by simp
next
  case (2 k v ms st0)
  show ?case
  proof (cases "equalFold ''api_key'' k")
    case False
    with 2 show ?thesis by simp
  next
    case True
    show ?thesis
    proof (cases "unmarshalString v (ApiKey st0)")
      case (Inl e)
      with True 2 show ?thesis by simp
    next
      case (Inr s)
      then have "coerceUTF8 s = s"
        using "2.prems"(2) by (cases v) (auto simp: coerceUTF8_idem)
      with "2.IH"(1) [OF True Inr] "2.prems"(1) True Inr show ?thesis by simp
    qed
  qed
qed

lemma restoreState_coerced:
  assumes "restoreState w = Inr (Some st)"
  shows "coerceUTF8 (ApiKey st) = ApiKey st"
proof -
  from assms obtain j where "unmarshalState j = Inr (Some st)"
    by (auto simp: restoreState_def split: option.splits payload.splits)
  then obtain ms where "stateMembers ms \<lparr>ApiKey = []\<rparr> = Inr st"
    by (cases j) (auto split: sum.splits)
  then show ?thesis by (rule stateMembers_coerced) simp
qed

lemma restoreState_after_dump:
  assumes "dumpState s w = (None, w')" "openFault w = None" "readFault w = None"
  shows "restoreState w' = Inr (Some \<lparr>ApiKey = coerceUTF8 (ApiKey s)\<rparr>)"
proof -
  from assms(1) have "w' = w\<lparr>stateFile := Some (JSONText (marshalState s))\<rparr>"
    by (auto simp: dumpState_def Let_def split: option.splits)
  then show ?thesis
    using assms(2,3) by (simp add: restoreState_def unmarshal_marshalState)
qed

text \<open>
  Claim C10, as amended. When \<^verbatim>\<open>dumpState\<close> succeeds and the file can then be opened
  and read, \<^verbatim>\<open>restoreState\<close> returns without error a state whose key is the written
  key coerced to valid UTF-8; this is the written key itself whenever that key is
  valid UTF-8.
\<close>

theorem state_roundtrip:
  assumes "dumpState s w = (None, w')" and "openFault w = None" and "readFault w = None"
  shows "restoreState w' = Inr (Some \<lparr>ApiKey = coerceUTF8 (ApiKey s)\<rparr>)
       \<and> (ValidString (ApiKey s) \<longrightarrow> restoreState w' = Inr (Some \<lparr>ApiKey = ApiKey s\<rparr>))"
  using restoreState_after_dump [OF assms] by (simp add: coerceUTF8_valid)

theorem state_roundtrip_witness:
  "restoreState demoWorld = Inr (Some \<lparr>ApiKey = ''abc''\<rparr>)"
proof -
  have d: "dumpState \<lparr>ApiKey = ''abc''\<rparr> (demoWorld\<lparr>stateFile := None\<rparr>) = (None, demoWorld)"
    by (simp add: dumpState_def demoWorld_def marshalState_def byte_def)
  have v: "ValidString ''abc''" by (simp add: byte_def)
  have o: "openFault (demoWorld\<lparr>stateFile := None\<rparr>) = None"
    "readFault (demoWorld\<lparr>stateFile := None\<rparr>) = None"
    by (simp_all add: demoWorld_def)
  show ?thesis
    using state_roundtrip [OF d o] v by (simp add: byte_def)
qed

text \<open>
  Claim C10 as stated fails twice. The key that is the single byte \<^verbatim>\<open>0xFF\<close> is written
  as the escape of U+FFFD and comes back as the three bytes \<^verbatim>\<open>EF BF BD\<close>. And a file
  that can be written but not opened for reading makes \<^verbatim>\<open>dumpState\<close> succeed and
  \<^verbatim>\<open>restoreState\<close> fail.
\<close>

theorem state_roundtrip_counterexample:
  "dumpState \<lparr>ApiKey = [CHR 0xFF]\<rparr> demoWorld =
     (None, demoWorld\<lparr>stateFile :=
        Some (JSONText (JObject [(''api_key'', JString [CHR 0xEF, CHR 0xBF, CHR 0xBD])]))\<rparr>)
   \<and> restoreState (demoWorld\<lparr>stateFile :=
        Some (JSONText (JObject [(''api_key'', JString [CHR 0xEF, CHR 0xBF, CHR 0xBD])]))\<rparr>)
       = Inr (Some \<lparr>ApiKey = [CHR 0xEF, CHR 0xBF, CHR 0xBD]\<rparr>)
   \<and> dumpState \<lparr>ApiKey = ''abc''\<rparr> (demoWorld\<lparr>openFault := Some EACCES\<rparr>) =
       (None, demoWorld\<lparr>openFault := Some EACCES\<rparr>)
   \<and> restoreState (demoWorld\<lparr>openFault := Some EACCES\<rparr>) = Inl (PathError ''open'' EACCES)"
  by (simp add: dumpState_def restoreState_def demoWorld_def marshalState_def replacementChar_def
      byte_def inRange_def)

text \<open>
  Claim C8. Starting from a state file that is read without error and holds a
  non-empty key, a first run of key resolution and of the write that follows it in
  \<^verbatim>\<open>getForecast\<close> yields that key; a second run yields the same key, and its write
  leaves the world, and so the content of the state file, as the first run left it:
  the marshalled key.
\<close>

theorem key_resolution_idempotent:
  assumes "restoreState w = Inr (Some st)" and "ApiKey st \<noteq> []"
    and "getForecastIOKey w = Inr k" and "dumpState \<lparr>ApiKey = k\<rparr> w = (None, w1)"
  shows "k = ApiKey st
       \<and> getForecastIOKey w1 = Inr k
       \<and> dumpState \<lparr>ApiKey = k\<rparr> w1 = (None, w1)
       \<and> stateFile w1 = Some (JSONText (marshalState \<lparr>ApiKey = k\<rparr>))"
proof -
  have k: "k = ApiKey st"
    using assms(1-3) by (simp add: getForecastIOKey_def)
  have faults: "openFault w = None" "readFault w = None"
    using assms(1) by (auto simp: restoreState_def split: option.splits)
  have w1: "w1 = w\<lparr>stateFile := Some (JSONText (marshalState \<lparr>ApiKey = k\<rparr>))\<rparr>"
    and c: "createFault w = None" "writeFault w = None"
    using assms(4) by (auto simp: dumpState_def Let_def split: option.splits)
  have "restoreState w1 = Inr (Some \<lparr>ApiKey = coerceUTF8 k\<rparr>)"
    using restoreState_after_dump [OF assms(4) faults] by simp
  moreover have "coerceUTF8 k = k"
    using restoreState_coerced [OF assms(1)] k by simp
  ultimately have "getForecastIOKey w1 = Inr k"
    using assms(2) k by (simp add: getForecastIOKey_def)
  moreover have "dumpState \<lparr>ApiKey = k\<rparr> w1 = (None, w1)"
    using c by (simp add: dumpState_def w1)
  ultimately show ?thesis
    using k w1 by simp
qed

definition staleWorld :: world where
  "staleWorld = demoWorld\<lparr>stateFile :=
     Some (JSONText (JObject [(''note'', JBool True), (''API_KEY'', JString ''abc'')]))\<rparr>"

theorem key_resolution_idempotent_witness:
  "getForecastIOKey staleWorld = Inr ''abc''
   \<and> dumpState \<lparr>ApiKey = ''abc''\<rparr> staleWorld = (None, demoWorld)
   \<and> getForecastIOKey demoWorld = Inr ''abc''
   \<and> dumpState \<lparr>ApiKey = ''abc''\<rparr> demoWorld = (None, demoWorld)"
proof -
  have r: "restoreState staleWorld = Inr (Some \<lparr>ApiKey = ''abc''\<rparr>)"
    by (simp add: staleWorld_def demoWorld_def restoreState_def byte_def isLetter_def upper_def inRange_def)
  then have k: "getForecastIOKey staleWorld = Inr ''abc''"
    by (simp add: getForecastIOKey_def)
  have d: "dumpState \<lparr>ApiKey = ''abc''\<rparr> staleWorld = (None, demoWorld)"
    by (simp add: staleWorld_def dumpState_def demoWorld_def marshalState_def byte_def)
  show ?thesis
    using key_resolution_idempotent [OF r _ k d] k d by simp
qed

subsection \<open>The geocoding URL\<close>

text \<open>
  \<^verbatim>\<open>net/url\<close>, as far as \<^verbatim>\<open>buildGeocodingURL\<close> and \<^verbatim>\<open>parseGeocodingAddr\<close> reach it:
  \<^verbatim>\<open>QueryEscape\<close>, \<^verbatim>\<open>Values.Add\<close>, \<^verbatim>\<open>Values.Encode\<close>, \<^verbatim>\<open>URL.String\<close> and \<^verbatim>\<open>Parse\<close>.
  The package is followed as it stands in the Go releases since 1.5: \<^verbatim>\<open>String\<close> escapes
  the host, and \<^verbatim>\<open>Parse\<close> refuses a host that holds the escape of an ASCII byte.
\<close>

text \<open>
  \<^verbatim>\<open>shouldEscape\<close> and \<^verbatim>\<open>escape\<close>: which bytes each part of a URL writes as \<^verbatim>\<open>%XX\<close>.
  In a host every byte is escaped but letters, digits, \<^verbatim>\<open>-_.~\<close> and the delimiters of
  \<^verbatim>\<open>hostDelims\<close>; a slash is not among them.
\<close>

datatype encoding =
    encodePath | encodePathSegment | encodeHost | encodeZone | encodeUserPassword
  | encodeQueryComponent | encodeFragment

definition isDigit :: "char \<Rightarrow> bool" where
  "isDigit c = inRange 0x30 0x39 c"

definition hostDelims :: string where
  "hostDelims = ''!$&()*+,;=:[]<>'' @ [CHR 0x27, CHR 0x22]"

definition shouldEscape :: "char \<Rightarrow> encoding \<Rightarrow> bool" where
  "shouldEscape c mode =
     (if isLetter c \<or> isDigit c then False
      else if (mode = encodeHost \<or> mode = encodeZone) \<and> c \<in> set hostDelims then False
      else if c \<in> set ''-_.~'' then False
      else if c \<in> set ''$&+,/:;=?@'' \<and> mode = encodePath then c = CHR ''?''
      else if c \<in> set ''$&+,/:;=?@'' \<and> mode = encodePathSegment then c \<in> set ''/;,?''
      else if c \<in> set ''$&+,/:;=?@'' \<and> mode = encodeUserPassword then c \<in> set ''@/?:''
      else if c \<in> set ''$&+,/:;=?@'' \<and> mode = encodeQueryComponent then True
      else if c \<in> set ''$&+,/:;=?@'' \<and> mode = encodeFragment then False
      else if mode = encodeFragment \<and> c \<in> set ''!()*'' then False
      else True)"

definition hexDigit :: "nat \<Rightarrow> char" where
  "hexDigit n = ''0123456789ABCDEF'' ! n"

fun escape :: "string \<Rightarrow> encoding \<Rightarrow> string" where
  "escape [] mode = []"
| "escape (c # s) mode =
     (if c = CHR '' '' \<and> mode = encodeQueryComponent then CHR ''+'' # escape s mode
      else if shouldEscape c mode then
        CHR ''%'' # hexDigit (byte c div 16) # hexDigit (byte c mod 16) # escape s mode
      else c # escape s mode)"

text \<open>
  \<^verbatim>\<open>unescape\<close>: fails at the first \<^verbatim>\<open>%\<close> that two hex digits do not follow. In a host
  an escape of an ASCII byte other than \<^verbatim>\<open>%25\<close> is refused, and so is a plain ASCII byte
  that \<^verbatim>\<open>shouldEscape\<close> would escape there.
\<close>

definition ishex :: "char \<Rightarrow> bool" where
  "ishex c = (isDigit c \<or> inRange 0x61 0x66 c \<or> inRange 0x41 0x46 c)"

definition unhex :: "char \<Rightarrow> nat" where
  "unhex c =
     (if isDigit c then byte c - 0x30
      else if inRange 0x61 0x66 c then byte c - 0x61 + 10
      else if inRange 0x41 0x46 c then byte c - 0x41 + 10
      else 0)"

fun unescape :: "string \<Rightarrow> encoding \<Rightarrow> error + string" where
  "unescape [] mode = Inr []"
| "unescape (c # s) mode =
     (if c = CHR ''%'' then
        (case s of
           h1 # h2 # s' \<Rightarrow>
             if \<not> (ishex h1 \<and> ishex h2) then Inl (EscapeError (take 3 (c # s)))
             else if mode = encodeHost \<and> unhex h1 < 8 \<and> [c, h1, h2] \<noteq> ''%25'' then
               Inl (EscapeError [c, h1, h2])
             else if mode = encodeZone \<and> [c, h1, h2] \<noteq> ''%25''
                     \<and> char_of (unhex h1 * 16 + unhex h2) \<noteq> CHR '' ''
                     \<and> shouldEscape (char_of (unhex h1 * 16 + unhex h2)) encodeHost then
               Inl (EscapeError [c, h1, h2])
             else
               (case unescape s' mode of
                  Inl e \<Rightarrow> Inl e
                | Inr t \<Rightarrow> Inr (char_of (unhex h1 * 16 + unhex h2) # t))
         | _ \<Rightarrow> Inl (EscapeError (take 3 (c # s))))
      else if c \<noteq> CHR ''+'' \<and> (mode = encodeHost \<or> mode = encodeZone) \<and> byte c < 0x80
              \<and> shouldEscape c encodeHost then
        Inl (InvalidHostError [c])
      else
        (case unescape s mode of
           Inl e \<Rightarrow> Inl e
         | Inr t \<Rightarrow>
             Inr ((if c = CHR ''+'' \<and> mode = encodeQueryComponent then CHR '' '' else c) # t)))"

definition QueryEscape :: "string \<Rightarrow> string" where
  "QueryEscape s = escape s encodeQueryComponent"

definition QueryUnescape :: "string \<Rightarrow> error + string" where
  "QueryUnescape s = unescape s encodeQueryComponent"

text \<open>
  \<^verbatim>\<open>url.Values\<close> is a map from a key to its values; the list keeps one entry per key.
  \<^verbatim>\<open>Values.Add\<close> appends a value to the values of its key.
\<close>

type_synonym Values = "(string \<times> string list) list"

definition Add :: "string \<Rightarrow> string \<Rightarrow> Values \<Rightarrow> Values" where
  "Add key val v =
     (if key \<in> fst ` set v
      then map (\<lambda>(k, vs). if k = key then (k, vs @ [val]) else (k, vs)) v
      else v @ [(key, [val])])"

text \<open>\<^verbatim>\<open>Values.Encode\<close>: \<^verbatim>\<open>key=value\<close> pairs, keys sorted, joined by \<^verbatim>\<open>&\<close>.\<close>

fun joinAmp :: "string list \<Rightarrow> string" where
  "joinAmp [] = []"
| "joinAmp [x] = x"
| "joinAmp (x # xs) = x @ ''&'' @ joinAmp xs"

definition Encode :: "Values \<Rightarrow> string" where
  "Encode v =
     joinAmp (concat (map
       (\<lambda>k. map (\<lambda>x. QueryEscape k @ ''='' @ QueryEscape x)
                (case map_of v k of None \<Rightarrow> [] | Some vs \<Rightarrow> vs))
       (sort (remdups (map fst v)))))"

text \<open>The fields of \<^verbatim>\<open>url.URL\<close>; \<^verbatim>\<open>User\<close> is a pointer.\<close>

record Userinfo =
  username :: string
  password :: string
  passwordSet :: bool

record URL =
  Scheme :: string
  Opaque :: string
  User :: "Userinfo option"
  Host :: string
  Path :: string
  RawPath :: string
  OmitHost :: bool
  ForceQuery :: bool
  RawQuery :: string
  Fragment :: string
  RawFragment :: string

definition emptyURL :: URL where
  "emptyURL = \<lparr>Scheme = [], Opaque = [], User = None, Host = [], Path = [], RawPath = [],
     OmitHost = False, ForceQuery = False, RawQuery = [], Fragment = [], RawFragment = []\<rparr>"

text \<open>
  \<^verbatim>\<open>URL.EscapedPath\<close> and \<^verbatim>\<open>URL.EscapedFragment\<close>: the raw form when it is a valid
  encoding of the decoded one, the default escaping otherwise.
\<close>

definition validEncoded :: "string \<Rightarrow> encoding \<Rightarrow> bool" where
  "validEncoded s mode =
     list_all (\<lambda>c. c \<in> set (''!$&()*+,;=:@[]%'' @ [CHR 0x27]) \<or> \<not> shouldEscape c mode) s"

definition EscapedPath :: "URL \<Rightarrow> string" where
  "EscapedPath u =
     (if RawPath u \<noteq> [] \<and> validEncoded (RawPath u) encodePath
         \<and> unescape (RawPath u) encodePath = Inr (Path u) then RawPath u
      else if Path u = ''*'' then ''*''
      else escape (Path u) encodePath)"

definition EscapedFragment :: "URL \<Rightarrow> string" where
  "EscapedFragment u =
     (if RawFragment u \<noteq> [] \<and> validEncoded (RawFragment u) encodeFragment
         \<and> unescape (RawFragment u) encodeFragment = Inr (Fragment u) then RawFragment u
      else escape (Fragment u) encodeFragment)"

text \<open>
  \<^verbatim>\<open>URL.String\<close>. The host is written through \<^verbatim>\<open>escape\<close> in host mode, and a slash is
  put before a path that does not start with one when the host is not empty.
\<close>

definition Userinfo_String :: "Userinfo \<Rightarrow> string" where
  "Userinfo_String ui =
     escape (username ui) encodeUserPassword
       @ (if passwordSet ui then '':'' @ escape (password ui) encodeUserPassword else [])"

definition String :: "URL \<Rightarrow> string" where
  "String u =
     (let path = EscapedPath u;
          start =
            (if Scheme u \<noteq> [] then Scheme u @ '':'' else [])
            @ (if Opaque u \<noteq> [] then []
               else
                 (if (Scheme u \<noteq> [] \<or> Host u \<noteq> [] \<or> User u \<noteq> None)
                     \<and> \<not> (OmitHost u \<and> Host u = [] \<and> User u = None) then
                    (if Host u \<noteq> [] \<or> Path u \<noteq> [] \<or> User u \<noteq> None then ''//'' else [])
                    @ (case User u of None \<Rightarrow> [] | Some ui \<Rightarrow> Userinfo_String ui @ ''@'')
                    @ escape (Host u) encodeHost
                  else [])
                 @ (if path \<noteq> [] \<and> hd path \<noteq> CHR ''/'' \<and> Host u \<noteq> [] then ''/'' else []))
      in start
         @ (if Opaque u \<noteq> [] then Opaque u
            else
              (if start = [] \<and> CHR '':'' \<in> set (takeWhile (\<lambda>x. x \<noteq> CHR ''/'') path)
               then ''./'' else [])
              @ path)
         @ (if ForceQuery u \<or> RawQuery u \<noteq> [] then ''?'' @ RawQuery u else [])
         @ (if Fragment u \<noteq> [] then ''#'' @ EscapedFragment u else []))"

text \<open>\<^verbatim>\<open>strings.Cut\<close>: the parts before and after the first \<open>c\<close>; all of \<open>s\<close> and nothing when there is none.\<close>

definition Cut :: "string \<Rightarrow> char \<Rightarrow> string \<times> string" where
  "Cut s c =
     (takeWhile (\<lambda>x. x \<noteq> c) s, drop (length (takeWhile (\<lambda>x. x \<noteq> c) s) + 1) s)"

text \<open>
  \<^verbatim>\<open>stringContainsCTLByte\<close>, and \<^verbatim>\<open>getScheme\<close>: the loop over the bytes of \<^verbatim>\<open>rawURL\<close>,
  at index \<open>i\<close>.
\<close>

definition stringContainsCTLByte :: "string \<Rightarrow> bool" where
  "stringContainsCTLByte s = list_ex (\<lambda>c. byte c < 0x20 \<or> byte c = 0x7F) s"

fun scanScheme :: "nat \<Rightarrow> string \<Rightarrow> string \<Rightarrow> error + string \<times> string" where
  "scanScheme i [] rawURL = Inr ([], rawURL)"
| "scanScheme i (c # cs) rawURL =
     (if isLetter c then scanScheme (i + 1) cs rawURL
      else if isDigit c \<or> c = CHR ''+'' \<or> c = CHR ''-'' \<or> c = CHR ''.'' then
        (if i = 0 then Inr ([], rawURL) else scanScheme (i + 1) cs rawURL)
      else if c = CHR '':'' then
        (if i = 0 then Inl (ErrorString ''missing protocol scheme'') else Inr (take i rawURL, cs))
      else Inr ([], rawURL))"

definition getScheme :: "string \<Rightarrow> error + string \<times> string" where
  "getScheme rawURL = scanScheme 0 rawURL rawURL"

text \<open>\<^verbatim>\<open>strings.ToLower\<close> on a scheme, whose bytes are ASCII.\<close>

definition toLower :: "char \<Rightarrow> char" where
  "toLower c = (if inRange 0x41 0x5A c then char_of (byte c + 0x20) else c)"

text \<open>
  \<^verbatim>\<open>parseHost\<close> and \<^verbatim>\<open>parseAuthority\<close>: the port is checked, the host is unescaped in host
  mode, and the user information ends at the last \<^verbatim>\<open>@\<close>.
\<close>

definition validOptionalPort :: "string \<Rightarrow> bool" where
  "validOptionalPort port =
     (case port of [] \<Rightarrow> True | c # ds \<Rightarrow> c = CHR '':'' \<and> list_all isDigit ds)"

definition validUserinfo :: "string \<Rightarrow> bool" where
  "validUserinfo s =
     list_all (\<lambda>c. isLetter c \<or> isDigit c \<or> c \<in> set (''-._:~!$&()*+,;=%@'' @ [CHR 0x27])) s"

text \<open>The part of \<open>s\<close> after the last \<open>c\<close>, and the part before it.\<close>

definition afterLast :: "char \<Rightarrow> string \<Rightarrow> string" where
  "afterLast c s = rev (takeWhile (\<lambda>x. x \<noteq> c) (rev s))"

definition beforeLast :: "char \<Rightarrow> string \<Rightarrow> string" where
  "beforeLast c s = take (length s - length (afterLast c s) - 1) s"

text \<open>\<^verbatim>\<open>strings.Index(s, "%25")\<close>: the part of \<open>s\<close> before the first \<^verbatim>\<open>%25\<close>, if there is one.\<close>

fun beforeZone :: "string \<Rightarrow> string option" where
  "beforeZone [] = None"
| "beforeZone (c # s) =
     (if take 3 (c # s) = ''%25'' then Some []
      else (case beforeZone s of None \<Rightarrow> None | Some p \<Rightarrow> Some (c # p)))"

definition parseHost :: "string \<Rightarrow> error + string" where
  "parseHost host =
     (let plain = unescape host encodeHost in
      if take 1 host = ''['' then
        (if CHR '']'' \<notin> set host then Inl (ErrorString ''missing ']' in host'')
         else
           let colonPort = afterLast CHR '']'' host;
               lit = beforeLast CHR '']'' host
           in if \<not> validOptionalPort colonPort then Inl (InvalidPortError colonPort)
              else
                (case beforeZone lit of
                   None \<Rightarrow> plain
                 | Some host1 \<Rightarrow>
                     (case unescape host1 encodeHost of
                        Inl e \<Rightarrow> Inl e
                      | Inr h1 \<Rightarrow>
                          (case unescape (drop (length host1) lit) encodeZone of
                             Inl e \<Rightarrow> Inl e
                           | Inr h2 \<Rightarrow>
                               (case unescape (drop (length lit) host) encodeHost of
                                  Inl e \<Rightarrow> Inl e
                                | Inr h3 \<Rightarrow> Inr (h1 @ h2 @ h3))))))
      else if CHR '':'' \<in> set host \<and> \<not> validOptionalPort (CHR '':'' # afterLast CHR '':'' host) then
        Inl (InvalidPortError (CHR '':'' # afterLast CHR '':'' host))
      else plain)"

definition parseAuthority :: "string \<Rightarrow> error + Userinfo option \<times> string" where
  "parseAuthority authority =
     (if CHR ''@'' \<notin> set authority then
        (case parseHost authority of Inl e \<Rightarrow> Inl e | Inr host \<Rightarrow> Inr (None, host))
      else
        case parseHost (afterLast CHR ''@'' authority) of
          Inl e \<Rightarrow> Inl e
        | Inr host \<Rightarrow>
            let userinfo = beforeLast CHR ''@'' authority in
            if \<not> validUserinfo userinfo then Inl (ErrorString ''net/url: invalid userinfo'')
            else if CHR '':'' \<notin> set userinfo then
              (case unescape userinfo encodeUserPassword of
                 Inl e \<Rightarrow> Inl e
               | Inr n \<Rightarrow> Inr (Some \<lparr>username = n, password = [], passwordSet = False\<rparr>, host))
            else
              (case unescape (fst (Cut userinfo CHR '':'')) encodeUserPassword of
                 Inl e \<Rightarrow> Inl e
               | Inr n \<Rightarrow>
                   (case unescape (snd (Cut userinfo CHR '':'')) encodeUserPassword of
                      Inl e \<Rightarrow> Inl e
                    | Inr p \<Rightarrow>
                        Inr (Some \<lparr>username = n, password = p, passwordSet = True\<rparr>, host))))"

text \<open>
  \<^verbatim>\<open>parse(rawURL, false)\<close> and \<^verbatim>\<open>Parse\<close>, which cuts the fragment off first and wraps an
  error with the text that was parsed.
\<close>

definition setPath :: "string \<Rightarrow> URL \<Rightarrow> error + URL" where
  "setPath p u =
     (case unescape p encodePath of
        Inl e \<Rightarrow> Inl e
      | Inr path \<Rightarrow>
          Inr (u\<lparr>Path := path, RawPath := (if p = escape path encodePath then [] else p)\<rparr>))"

definition setFragment :: "string \<Rightarrow> URL \<Rightarrow> error + URL" where
  "setFragment f u =
     (case unescape f encodeFragment of
        Inl e \<Rightarrow> Inl e
      | Inr frag \<Rightarrow>
          Inr (u\<lparr>Fragment := frag,
                 RawFragment := (if f = escape frag encodeFragment then [] else f)\<rparr>))"

definition parse :: "string \<Rightarrow> error + URL" where
  "parse rawURL =
     (if stringContainsCTLByte rawURL then
        Inl (ErrorString ''net/url: invalid control character in URL'')
      else if rawURL = ''*'' then Inr (emptyURL\<lparr>Path := ''*''\<rparr>)
      else
        case getScheme rawURL of
          Inl e \<Rightarrow> Inl e
        | Inr (scheme0, rest0) \<Rightarrow>
            let scheme = map toLower scheme0;
                force = (rest0 \<noteq> [] \<and> last rest0 = CHR ''?'' \<and> count_list rest0 CHR ''?'' = 1);
                rest = (if force then butlast rest0 else fst (Cut rest0 CHR ''?''));
                query = (if force then [] else snd (Cut rest0 CHR ''?''));
                url = emptyURL\<lparr>Scheme := scheme, ForceQuery := force, RawQuery := query\<rparr>
            in if take 1 rest \<noteq> ''/'' \<and> scheme \<noteq> [] then Inr (url\<lparr>Opaque := rest\<rparr>)
               else if take 1 rest \<noteq> ''/''
                       \<and> CHR '':'' \<in> set (takeWhile (\<lambda>x. x \<noteq> CHR ''/'') rest) then
                 Inl (ErrorString ''first path segment in URL cannot contain colon'')
               else if (scheme \<noteq> [] \<or> take 3 rest \<noteq> ''///'') \<and> take 2 rest = ''//'' then
                 (let authority = takeWhile (\<lambda>x. x \<noteq> CHR ''/'') (drop 2 rest);
                      rest' = dropWhile (\<lambda>x. x \<noteq> CHR ''/'') (drop 2 rest)
                  in case parseAuthority authority of
                       Inl e \<Rightarrow> Inl e
                     | Inr (user, host) \<Rightarrow> setPath rest' (url\<lparr>User := user, Host := host\<rparr>))
               else if scheme \<noteq> [] \<and> take 1 rest = ''/'' then
                 setPath rest (url\<lparr>OmitHost := True\<rparr>)
               else setPath rest url)"

definition Parse :: "string \<Rightarrow> error + URL" where
  "Parse rawURL =
     (let u = fst (Cut rawURL CHR ''#''); frag = snd (Cut rawURL CHR ''#'')
      in case parse u of
           Inl e \<Rightarrow> Inl (URLError u e)
         | Inr url \<Rightarrow>
             if frag = [] then Inr url
             else
               (case setFragment frag url of
                  Inl e \<Rightarrow> Inl (URLError rawURL e)
                | Inr url' \<Rightarrow> Inr url'))"

text \<open>The constants and the two functions of the program.\<close>

definition geocodeHost :: string where
  "geocodeHost = ''maps.googleapis.com/''"

definition geocodePath :: string where
  "geocodePath = ''maps/api/geocode/json''"

definition buildGeocodingURL :: "string \<Rightarrow> Values \<Rightarrow> error + URL" where
  "buildGeocodingURL scheme vals =
     (let u = emptyURL\<lparr>Scheme := scheme, Host := geocodeHost, Path := geocodePath\<rparr>;
          u = (if length vals \<noteq> 0 then u\<lparr>RawQuery := Encode vals\<rparr> else u)
      in Parse (String u))"

definition parseGeocodingAddr :: "string \<Rightarrow> Values" where
  "parseGeocodingAddr addr =
     (let vals = [];
          vals = Add ''address'' (QueryEscape addr) vals;
          vals = Add ''sensor'' ''false'' vals
      in vals)"

text \<open>The bytes that \<^verbatim>\<open>QueryEscape\<close> and \<^verbatim>\<open>Values.Encode\<close> produce.\<close>

lemmas charDefs = isLetter_def isDigit_def inRange_def byte_def

definition unreserved :: "char \<Rightarrow> bool" where
  "unreserved c = (isLetter c \<or> isDigit c \<or> c \<in> set ''-_.~'')"

lemma shouldEscape_query: "shouldEscape c encodeQueryComponent = (\<not> unreserved c)"
  by (auto simp: shouldEscape_def unreserved_def)

lemma hexDigit_table:
  "\<forall>k\<in>set [0..<16]. unreserved (hexDigit k) \<and> ishex (hexDigit k) \<and> unhex (hexDigit k) = k"
  by (simp add: upt_conv_Cons hexDigit_def unreserved_def ishex_def unhex_def charDefs)

lemma hexDigit_unreserved: "n < 16 \<Longrightarrow> unreserved (hexDigit n)"
  using hexDigit_table by simp

lemma byte_lt: "byte c < 256"
  by (simp add: byte_def)

text \<open>The bytes of an encoded query: unreserved ones and \<^verbatim>\<open>% + = &\<close>.\<close>

definition queryByte :: "char \<Rightarrow> bool" where
  "queryByte c = (unreserved c \<or> c \<in> set ''%+=&'')"

lemma QueryEscape_bytes: "list_all queryByte (QueryEscape s)"
  unfolding QueryEscape_def
proof (induction s)
  case Nil
  then show ?case by simp
next
  case (Cons a s)
  have "byte a div 16 < 16" "byte a mod 16 < 16"
    using byte_lt [of a] by simp_all
  then have "unreserved (hexDigit (byte a div 16))" "unreserved (hexDigit (byte a mod 16))"
    by (simp_all add: hexDigit_unreserved)
  with Cons show ?case
    by (simp add: shouldEscape_query queryByte_def)
qed

lemma joinAmp_bytes: "list_all (list_all queryByte) xs \<Longrightarrow> list_all queryByte (joinAmp xs)"
  by (induction xs rule: joinAmp.induct) (simp_all add: queryByte_def)

lemma pair_bytes: "list_all queryByte (QueryEscape k @ ''='' @ QueryEscape x)"
  using QueryEscape_bytes [of k] QueryEscape_bytes [of x] by (simp add: queryByte_def)

lemma Encode_bytes: "list_all queryByte (Encode v)"
  unfolding Encode_def
  by (rule joinAmp_bytes) (auto simp: list_all_iff pair_bytes [unfolded list_all_iff])

lemma queryByte_plain:
  "queryByte c \<Longrightarrow> c \<noteq> CHR ''#'' \<and> c \<noteq> CHR ''?'' \<and> \<not> (byte c < 0x20 \<or> byte c = 0x7F)"
  by (auto simp: queryByte_def unreserved_def charDefs)

text \<open>
  The host constant ends with a slash. \<^verbatim>\<open>String\<close> writes that slash as \<^verbatim>\<open>%2F\<close>, and
  \<^verbatim>\<open>Parse\<close> refuses the text, whatever the query is.
\<close>

lemma parseHost_geocodeHost:
  "parseHost ''maps.googleapis.com%2F'' = Inl (EscapeError ''%2F'')"
  by (simp add: parseHost_def shouldEscape_def hostDelims_def ishex_def unhex_def charDefs)

lemma cut_query:
  assumes "list_all queryByte q"
  shows "CHR ''#'' \<notin> set q" "CHR ''?'' \<notin> set q" "\<not> stringContainsCTLByte q"
  using assms queryByte_plain
  by (auto simp: list_all_iff stringContainsCTLByte_def list_ex_iff)

lemma parse_escaped_host:
  assumes q: "list_all queryByte q"
  shows "parse (''http://maps.googleapis.com%2F/maps/api/geocode/json''
                 @ (if q = [] then [] else ''?'' @ q)) = Inl (EscapeError ''%2F'')"
proof -
  let ?tail = "if q = [] then [] else ''?'' @ q"
  let ?raw = "''http://maps.googleapis.com%2F/maps/api/geocode/json'' @ ?tail"
  let ?rest = "''//maps.googleapis.com%2F/maps/api/geocode/json'' @ ?tail"
  have ctl: "\<not> stringContainsCTLByte ?raw"
    using cut_query(3) [OF q] by (simp add: stringContainsCTLByte_def byte_def)
  have star: "?raw \<noteq> ''*''" by simp
  have sch: "getScheme ?raw = Inr (''http'', ?rest)"
    by (simp add: getScheme_def charDefs)
  have lo: "map toLower ''http'' = ''http''"
    by (simp add: toLower_def charDefs)
  have force: "\<not> (?rest \<noteq> [] \<and> last ?rest = CHR ''?'' \<and> count_list ?rest CHR ''?'' = 1)"
  proof (cases "q = []")
    case True
    then show ?thesis by simp
  next
    case False
    then have "last q \<in> set q" by simp
    then have "last q \<noteq> CHR ''?''" using cut_query(2) [OF q] by auto
    with False show ?thesis by simp
  qed
  have cut: "fst (Cut ?rest CHR ''?'') = ''//maps.googleapis.com%2F/maps/api/geocode/json''"
    by (simp add: Cut_def)
  have au: "parseAuthority ''maps.googleapis.com%2F'' = Inl (EscapeError ''%2F'')"
    by (simp add: parseAuthority_def parseHost_geocodeHost)
  show ?thesis
    unfolding parse_def
    by (simp only: ctl star if_False sch sum.case prod.case Let_def lo force cut)
       (simp add: au)
qed

lemma Cut_absent:
  assumes "c \<notin> set s"
  shows "Cut s c = (s, [])"
proof -
  have t: "takeWhile (\<lambda>x. x \<noteq> c) s = s"
    using assms by auto
  show ?thesis unfolding Cut_def t by simp
qed

lemma Parse_escaped_host:
  assumes q: "list_all queryByte q"
  shows "Parse (''http://maps.googleapis.com%2F/maps/api/geocode/json''
                 @ (if q = [] then [] else ''?'' @ q))
       = Inl (URLError (''http://maps.googleapis.com%2F/maps/api/geocode/json''
                 @ (if q = [] then [] else ''?'' @ q)) (EscapeError ''%2F''))"
proof -
  let ?raw = "''http://maps.googleapis.com%2F/maps/api/geocode/json''
                 @ (if q = [] then [] else ''?'' @ q)"
  have "CHR ''#'' \<notin> set ?raw"
    using cut_query(1) [OF q] by simp
  then have c: "Cut ?raw CHR ''#'' = (?raw, [])"
    by (rule Cut_absent)
  show ?thesis
    unfolding Parse_def Let_def c fst_conv by (simp only: parse_escaped_host [OF q] sum.case)
qed

lemma String_built:
  "String (emptyURL\<lparr>Scheme := ''http'', Host := geocodeHost, Path := geocodePath, RawQuery := q\<rparr>)
     = ''http://maps.googleapis.com%2F/maps/api/geocode/json'' @ (if q = [] then [] else ''?'' @ q)"
  by (simp add: String_def EscapedPath_def emptyURL_def geocodeHost_def geocodePath_def
      shouldEscape_def hostDelims_def hexDigit_def charDefs)

lemma buildGeocodingURL_fails:
  "buildGeocodingURL ''http'' vals =
     Inl (URLError
           (''http://maps.googleapis.com%2F/maps/api/geocode/json''
              @ (if vals = [] \<or> Encode vals = [] then [] else ''?'' @ Encode vals))
           (EscapeError ''%2F''))"
proof (cases "vals = []")
  case True
  have "list_all queryByte []" by simp
  from Parse_escaped_host [OF this] True show ?thesis
    using String_built [of "[]"] by (simp add: buildGeocodingURL_def emptyURL_def)
next
  case False
  from Parse_escaped_host [OF Encode_bytes [of vals]] False show ?thesis
    using String_built [of "Encode vals"] by (simp add: buildGeocodingURL_def)
qed

lemma parseGeocodingAddr_eq:
  "parseGeocodingAddr addr = [(''address'', [QueryEscape addr]), (''sensor'', [''false''])]"
  by (simp add: parseGeocodingAddr_def Add_def)

lemma QueryEscape_address: "QueryEscape ''address'' = ''address''"
  by (simp add: QueryEscape_def shouldEscape_def charDefs)

lemma QueryEscape_sensor: "QueryEscape ''sensor'' = ''sensor''"
  by (simp add: QueryEscape_def shouldEscape_def charDefs)

lemma QueryEscape_false: "QueryEscape ''false'' = ''false''"
  by (simp add: QueryEscape_def shouldEscape_def charDefs)

lemma Encode_parseGeocodingAddr:
  "Encode (parseGeocodingAddr addr) =
     ''address='' @ QueryEscape (QueryEscape addr) @ ''&sensor=false''"
  by (simp add: parseGeocodingAddr_eq Encode_def QueryEscape_address QueryEscape_sensor
      QueryEscape_false)

lemma buildGeocodingURL_addr:
  "buildGeocodingURL ''http'' (parseGeocodingAddr addr)
     = Inl (URLError (''http://maps.googleapis.com%2F/maps/api/geocode/json?address=''
                        @ QueryEscape (QueryEscape addr) @ ''&sensor=false'')
                     (EscapeError ''%2F''))"
  by (simp add: buildGeocodingURL_fails [of "parseGeocodingAddr addr"] Encode_parseGeocodingAddr)
     (simp add: parseGeocodingAddr_eq)

subsection \<open>The geocoding client\<close>

text \<open>
  \<^verbatim>\<open>json.Unmarshal(b, &geoResp)\<close> into \<^verbatim>\<open>*geocodingResponse\<close>. Members are decoded
  in order into the field their key matches; a pointer field is nil for null and is
  allocated for an object when it is nil; null leaves a struct or a number as it is; a
  value of the wrong JSON type is an \<^verbatim>\<open>UnmarshalTypeError\<close>. An array is decoded into
  the elements the slice already has, then into those its backing array keeps beyond
  its length (\<open>spare\<close>), then into new ones; null and the empty array drop the backing
  array. The JSON text \<^verbatim>\<open>null\<close> sets the pointer \<^verbatim>\<open>geoResp\<close> itself to nil.
\<close>

fun unmarshalFloat64 :: "json \<Rightarrow> float64 \<Rightarrow> error + float64" where
  "unmarshalFloat64 JNull cur = Inr cur"
| "unmarshalFloat64 (JNumber (Some f)) cur = Inr f"
| "unmarshalFloat64 _ cur = Inl UnmarshalTypeError"

fun locationMembers :: "(string \<times> json) list \<Rightarrow> location \<Rightarrow> error + location" where
  "locationMembers [] l = Inr l"
| "locationMembers ((k, v) # ms) l =
     (if equalFold ''lat'' k then
        (case unmarshalFloat64 v (Lat l) of
           Inl e \<Rightarrow> Inl e
         | Inr f \<Rightarrow> locationMembers ms (l\<lparr>Lat := f\<rparr>))
      else if equalFold ''lng'' k then
        (case unmarshalFloat64 v (Lng l) of
           Inl e \<Rightarrow> Inl e
         | Inr f \<Rightarrow> locationMembers ms (l\<lparr>Lng := f\<rparr>))
      else locationMembers ms l)"

fun unmarshalLocation :: "json \<Rightarrow> location option \<Rightarrow> error + location option" where
  "unmarshalLocation JNull cur = Inr None"
| "unmarshalLocation (JObject ms) cur =
     (case locationMembers ms
             (case cur of None \<Rightarrow> \<lparr>Lat = Finite False 0 0, Lng = Finite False 0 0\<rparr> | Some l \<Rightarrow> l) of
        Inl e \<Rightarrow> Inl e
      | Inr l \<Rightarrow> Inr (Some l))"
| "unmarshalLocation _ cur = Inl UnmarshalTypeError"

fun geometryMembers :: "(string \<times> json) list \<Rightarrow> geometry \<Rightarrow> error + geometry" where
  "geometryMembers [] g = Inr g"
| "geometryMembers ((k, v) # ms) g =
     (if equalFold ''location'' k then
        (case unmarshalLocation v (Location g) of
           Inl e \<Rightarrow> Inl e
         | Inr l \<Rightarrow> geometryMembers ms (g\<lparr>Location := l\<rparr>))
      else geometryMembers ms g)"

fun unmarshalGeometry :: "json \<Rightarrow> geometry option \<Rightarrow> error + geometry option" where
  "unmarshalGeometry JNull cur = Inr None"
| "unmarshalGeometry (JObject ms) cur =
     (case geometryMembers ms (case cur of None \<Rightarrow> \<lparr>Location = None\<rparr> | Some g \<Rightarrow> g) of
        Inl e \<Rightarrow> Inl e
      | Inr g \<Rightarrow> Inr (Some g))"
| "unmarshalGeometry _ cur = Inl UnmarshalTypeError"

fun resultMembers :: "(string \<times> json) list \<Rightarrow> geocodingResult \<Rightarrow> error + geocodingResult" where
  "resultMembers [] r = Inr r"
| "resultMembers ((k, v) # ms) r =
     (if equalFold ''geometry'' k then
        (case unmarshalGeometry v (Geometry r) of
           Inl e \<Rightarrow> Inl e
         | Inr g \<Rightarrow> resultMembers ms (r\<lparr>Geometry := g\<rparr>))
      else resultMembers ms r)"

fun unmarshalResult :: "json \<Rightarrow> geocodingResult \<Rightarrow> error + geocodingResult" where
  "unmarshalResult JNull cur = Inr cur"
| "unmarshalResult (JObject ms) cur = resultMembers ms cur"
| "unmarshalResult _ cur = Inl UnmarshalTypeError"

fun unmarshalResults :: "json list \<Rightarrow> geocodingResult list \<Rightarrow> error + geocodingResult list" where
  "unmarshalResults [] backing = Inr []"
| "unmarshalResults (v # vs) backing =
     (case unmarshalResult v (case backing of [] \<Rightarrow> \<lparr>Geometry = None\<rparr> | r # _ \<Rightarrow> r) of
        Inl e \<Rightarrow> Inl e
      | Inr r \<Rightarrow>
          (case unmarshalResults vs (tl backing) of
             Inl e \<Rightarrow> Inl e
           | Inr rs \<Rightarrow> Inr (r # rs)))"

fun responseMembers ::
  "(string \<times> json) list \<Rightarrow> geocodingResponse \<Rightarrow> geocodingResult list \<Rightarrow> error + geocodingResponse"
where
  "responseMembers [] g spare = Inr g"
| "responseMembers ((k, v) # ms) g spare =
     (if equalFold ''results'' k then
        (case v of
           JNull \<Rightarrow> responseMembers ms (g\<lparr>Results := []\<rparr>) []
         | JArray vs \<Rightarrow>
             (case unmarshalResults vs (Results g @ spare) of
                Inl e \<Rightarrow> Inl e
              | Inr rs \<Rightarrow>
                  responseMembers ms (g\<lparr>Results := rs\<rparr>)
                    (if vs = [] then [] else drop (length vs) (Results g @ spare)))
         | _ \<Rightarrow> Inl UnmarshalTypeError)
      else responseMembers ms g spare)"

fun unmarshalGeocodingResponse :: "payload \<Rightarrow> error + geocodingResponse option" where
  "unmarshalGeocodingResponse NotJSON = Inl SyntaxError"
| "unmarshalGeocodingResponse (JSONText JNull) = Inr None"
| "unmarshalGeocodingResponse (JSONText (JObject ms)) =
     (case responseMembers ms \<lparr>Results = []\<rparr> [] of Inl e \<Rightarrow> Inl e | Inr g \<Rightarrow> Inr (Some g))"
| "unmarshalGeocodingResponse (JSONText _) = Inl UnmarshalTypeError"

text \<open>
  The HTTP client is a function from the request to a transport error or a response.
  The body of a response is the failure of reading it or the text read.
  \<^verbatim>\<open>http.NewRequest\<close> checks the method, parses the URL and drops an empty port.
\<close>

record Request =
  Method :: string
  ReqURL :: URL

record Response =
  StatusCode :: int
  Body :: "string + payload"

type_synonym Client = "Request \<Rightarrow> error + Response"

definition validMethod :: "string \<Rightarrow> bool" where
  "validMethod m =
     (m \<noteq> [] \<and> list_all (\<lambda>c. isLetter c \<or> isDigit c
                               \<or> c \<in> set (''!#$%&*+-.^_|~'' @ [CHR 0x27, CHR 0x60])) m)"

definition lastIndex :: "char \<Rightarrow> string \<Rightarrow> int" where
  "lastIndex c s = (if c \<in> set s then int (length s) - int (length (afterLast c s)) - 1 else - 1)"

definition removeEmptyPort :: "string \<Rightarrow> string" where
  "removeEmptyPort host =
     (if lastIndex CHR '':'' host > lastIndex CHR '']'' host \<and> host \<noteq> [] \<and> last host = CHR '':''
      then butlast host else host)"

definition NewRequest :: "string \<Rightarrow> string \<Rightarrow> error + Request" where
  "NewRequest method urlStr =
     (let method = (if method = [] then ''GET'' else method) in
      if \<not> validMethod method then Inl (InvalidMethodError method)
      else
        case Parse urlStr of
          Inl e \<Rightarrow> Inl e
        | Inr u \<Rightarrow> Inr \<lparr>Method = method, ReqURL = u\<lparr>Host := removeEmptyPort (Host u)\<rparr>\<rparr>)"

text \<open>
  \<^verbatim>\<open>getGeocodingLocation\<close>. After a successful \<^verbatim>\<open>Unmarshal\<close> the program evaluates
  \<^verbatim>\<open>len(geoResp.Results)\<close>, which panics when \<^verbatim>\<open>geoResp\<close> is nil.
\<close>

definition getGeocodingLocation :: "Client \<Rightarrow> URL \<Rightarrow> geocodingResponse result" where
  "getGeocodingLocation client u =
     (case NewRequest ''GET'' (String u) of
        Inl err \<Rightarrow> Err err
      | Inr req \<Rightarrow>
          (case client req of
             Inl err \<Rightarrow> Err err
           | Inr resp \<Rightarrow>
               if StatusCode resp = 200 \<or> StatusCode resp = 201 then
                 (case Body resp of
                    Inl reason \<Rightarrow> Err (TransportError reason)
                  | Inr b \<Rightarrow>
                      (case unmarshalGeocodingResponse b of
                         Inl err \<Rightarrow> Err err
                       | Inr None \<Rightarrow> Panic
                       | Inr (Some geoResp) \<Rightarrow>
                           if length (Results geoResp) = 0 then Err NoResults
                           else Ok geoResp))
               else Err (UnexpectedStatus (StatusCode resp))))"

lemma unmarshalFloat64_error: "unmarshalFloat64 v cur = Inl e \<Longrightarrow> e = UnmarshalTypeError"
  by (cases "(v, cur)" rule: unmarshalFloat64.cases) auto

lemma locationMembers_error: "locationMembers ms l = Inl e \<Longrightarrow> e = UnmarshalTypeError"
  by (induction ms l rule: locationMembers.induct)
     (auto split: if_splits sum.splits dest: unmarshalFloat64_error)

lemma unmarshalLocation_error: "unmarshalLocation v cur = Inl e \<Longrightarrow> e = UnmarshalTypeError"
  by (cases "(v, cur)" rule: unmarshalLocation.cases)
     (auto split: sum.splits dest: locationMembers_error)

lemma geometryMembers_error: "geometryMembers ms g = Inl e \<Longrightarrow> e = UnmarshalTypeError"
  by (induction ms g rule: geometryMembers.induct)
     (auto split: if_splits sum.splits dest: unmarshalLocation_error)

lemma unmarshalGeometry_error: "unmarshalGeometry v cur = Inl e \<Longrightarrow> e = UnmarshalTypeError"
  by (cases "(v, cur)" rule: unmarshalGeometry.cases)
     (auto split: sum.splits dest: geometryMembers_error)

lemma resultMembers_error: "resultMembers ms r = Inl e \<Longrightarrow> e = UnmarshalTypeError"
  by (induction ms r rule: resultMembers.induct)
     (auto split: if_splits sum.splits dest: unmarshalGeometry_error)

lemma unmarshalResult_error: "unmarshalResult v cur = Inl e \<Longrightarrow> e = UnmarshalTypeError"
  by (cases "(v, cur)" rule: unmarshalResult.cases) (auto dest: resultMembers_error)

lemma unmarshalResults_error: "unmarshalResults vs backing = Inl e \<Longrightarrow> e = UnmarshalTypeError"
  by (induction vs arbitrary: backing) (auto split: sum.splits dest: unmarshalResult_error)

lemma responseMembers_error: "responseMembers ms g spare = Inl e \<Longrightarrow> e = UnmarshalTypeError"
  by (induction ms g spare rule: responseMembers.induct)
     (auto split: if_splits sum.splits json.splits dest: unmarshalResults_error)

lemma unmarshalGeocodingResponse_error:
  "unmarshalGeocodingResponse b = Inl e \<Longrightarrow> e = SyntaxError \<or> e = UnmarshalTypeError"
  by (cases b rule: unmarshalGeocodingResponse.cases)
     (auto split: sum.splits dest: responseMembers_error)

text \<open>
  A URL of the geocoding service that \<^verbatim>\<open>Parse\<close> accepts, and a client that answers
  every request alike.
\<close>

definition demoURL :: URL where
  "demoURL = emptyURL\<lparr>Scheme := ''http'', Host := ''maps.googleapis.com'',
     Path := ''/maps/api/geocode/json'', RawQuery := ''address=94109&sensor=false''\<rparr>"

definition respond :: "int \<Rightarrow> json \<Rightarrow> Client" where
  "respond code j = (\<lambda>req. Inr \<lparr>StatusCode = code, Body = Inr (JSONText j)\<rparr>)"

lemma String_demoURL:
  "String demoURL = ''http://maps.googleapis.com/maps/api/geocode/json?address=94109&sensor=false''"
  by code_simp

lemma Parse_demoURL:
  "Parse ''http://maps.googleapis.com/maps/api/geocode/json?address=94109&sensor=false'' = Inr demoURL"
  by code_simp

lemma NewRequest_demoURL: "NewRequest ''GET'' (String demoURL) = Inr \<lparr>Method = ''GET'', ReqURL = demoURL\<rparr>"
  by code_simp

text \<open>
  Claim C5. For every response the client returns: when the status code is neither
  200 nor 201, \<^verbatim>\<open>getGeocodingLocation\<close> returns the error that carries that code,
  whatever the body holds; when it is 200 or 201, the result is the one a status of
  200 gives with the same body, and it is never a status error.
\<close>

theorem status_codes:
  assumes "NewRequest ''GET'' (String u) = Inr req" and "client req = Inr resp"
  shows "(StatusCode resp \<noteq> 200 \<and> StatusCode resp \<noteq> 201 \<longrightarrow>
            getGeocodingLocation client u = Err (UnexpectedStatus (StatusCode resp))
            \<and> (\<forall>b. getGeocodingLocation (\<lambda>r. Inr (resp\<lparr>Body := b\<rparr>)) u
                     = Err (UnexpectedStatus (StatusCode resp))))
       \<and> (StatusCode resp = 200 \<or> StatusCode resp = 201 \<longrightarrow>
            getGeocodingLocation client u
              = getGeocodingLocation (\<lambda>r. Inr (resp\<lparr>StatusCode := 200\<rparr>)) u
            \<and> (\<forall>code. getGeocodingLocation client u \<noteq> Err (UnexpectedStatus code)))"
proof (intro conjI impI allI)
  assume "StatusCode resp \<noteq> 200 \<and> StatusCode resp \<noteq> 201"
  then show "getGeocodingLocation client u = Err (UnexpectedStatus (StatusCode resp))"
    and "\<And>b. getGeocodingLocation (\<lambda>r. Inr (resp\<lparr>Body := b\<rparr>)) u
                     = Err (UnexpectedStatus (StatusCode resp))"
    using assms by (simp_all add: getGeocodingLocation_def)
next
  assume ok: "StatusCode resp = 200 \<or> StatusCode resp = 201"
  then show "getGeocodingLocation client u
              = getGeocodingLocation (\<lambda>r. Inr (resp\<lparr>StatusCode := 200\<rparr>)) u"
    using assms by (auto simp: getGeocodingLocation_def)
  fix code
  show "getGeocodingLocation client u \<noteq> Err (UnexpectedStatus code)"
  proof (cases "Body resp")
    case (Inl reason)
    with ok assms show ?thesis by (auto simp: getGeocodingLocation_def)
  next
    case (Inr b)
    have "e \<noteq> UnexpectedStatus code" if "unmarshalGeocodingResponse b = Inl e" for e
      using unmarshalGeocodingResponse_error [OF that] by auto
    with Inr ok assms show ?thesis
      by (auto simp: getGeocodingLocation_def split: sum.splits option.splits)
  qed
qed

theorem status_codes_witness:
  "getGeocodingLocation (respond 301 (JObject [(''results'', JArray [JObject []])])) demoURL
     = Err (UnexpectedStatus 301)
   \<and> getGeocodingLocation (respond 201 (JObject [(''results'', JArray [JObject []])])) demoURL
     = Ok \<lparr>Results = [\<lparr>Geometry = None\<rparr>]\<rparr>"
proof -
  let ?j = "JObject [(''results'', JArray [JObject []])]"
  have a: "respond 301 ?j \<lparr>Method = ''GET'', ReqURL = demoURL\<rparr>
      = Inr \<lparr>StatusCode = 301, Body = Inr (JSONText ?j)\<rparr>"
    and b: "respond 201 ?j \<lparr>Method = ''GET'', ReqURL = demoURL\<rparr>
      = Inr \<lparr>StatusCode = 201, Body = Inr (JSONText ?j)\<rparr>"
    by (simp_all add: respond_def)
  have c: "getGeocodingLocation (\<lambda>r. Inr \<lparr>StatusCode = 200, Body = Inr (JSONText ?j)\<rparr>) demoURL
      = Ok \<lparr>Results = [\<lparr>Geometry = None\<rparr>]\<rparr>"
    by (simp add: getGeocodingLocation_def NewRequest_demoURL byte_def)
  show ?thesis
    using status_codes [where client = "respond 301 ?j", OF NewRequest_demoURL a]
      status_codes [where client = "respond 201 ?j", OF NewRequest_demoURL b] c
    by simp
qed

text \<open>
  The guard on the results. A body that decodes to a response record whose results
  are empty gives the no-results error, which no decoding failure is, and a response
  that is returned has at least one result. The guard covers the empty array, a
  missing \<^verbatim>\<open>results\<close> member and a null one.
\<close>

lemma empty_results_guard:
  "(\<forall>req resp b g.
      NewRequest ''GET'' (String u) = Inr req \<and> client req = Inr resp
      \<and> (StatusCode resp = 200 \<or> StatusCode resp = 201)
      \<and> Body resp = Inr b \<and> unmarshalGeocodingResponse b = Inr (Some g) \<and> Results g = []
      \<longrightarrow> getGeocodingLocation client u = Err NoResults)
   \<and> (\<forall>b e. unmarshalGeocodingResponse b = Inl e \<longrightarrow> e \<noteq> NoResults)
   \<and> (\<forall>g. getGeocodingLocation client u = Ok g \<longrightarrow> 1 \<le> length (Results g))"
proof (intro conjI allI impI)
  fix req resp b g
  assume "NewRequest ''GET'' (String u) = Inr req \<and> client req = Inr resp
      \<and> (StatusCode resp = 200 \<or> StatusCode resp = 201)
      \<and> Body resp = Inr b \<and> unmarshalGeocodingResponse b = Inr (Some g) \<and> Results g = []"
  then show "getGeocodingLocation client u = Err NoResults"
    by (auto simp: getGeocodingLocation_def)
next
  fix b e
  assume "unmarshalGeocodingResponse b = Inl e"
  then show "e \<noteq> NoResults"
    using unmarshalGeocodingResponse_error by blast
next
  fix g
  assume "getGeocodingLocation client u = Ok g"
  then have "length (Results g) \<noteq> 0"
    by (auto simp: getGeocodingLocation_def split: sum.splits option.splits if_splits)
  then show "1 \<le> length (Results g)" by (cases "Results g") simp_all
qed

lemma empty_array_no_results:
  "getGeocodingLocation (respond 200 (JObject [(''results'', JArray [])])) demoURL = Err NoResults
   \<and> getGeocodingLocation (respond 200 (JObject [])) demoURL = Err NoResults
   \<and> getGeocodingLocation (respond 200 (JObject [(''results'', JNull)])) demoURL = Err NoResults"
  by (simp add: getGeocodingLocation_def NewRequest_demoURL respond_def byte_def)

text \<open>
  Claim C6 fails on the code. The body \<^verbatim>\<open>null\<close> is valid JSON and holds no result.
  \<^verbatim>\<open>Unmarshal\<close> accepts it and sets \<^verbatim>\<open>geoResp\<close> to nil, so with status 200 or 201
  \<^verbatim>\<open>getGeocodingLocation\<close> panics at \<^verbatim>\<open>len(geoResp.Results)\<close> and does not return the
  no-results error.
\<close>

theorem null_body_panics:
  "unmarshalGeocodingResponse (JSONText JNull) = Inr None
   \<and> getGeocodingLocation (respond 200 JNull) demoURL = Panic
   \<and> getGeocodingLocation (respond 201 JNull) demoURL = Panic
   \<and> getGeocodingLocation (respond 200 JNull) demoURL \<noteq> Err NoResults"
  by (simp add: getGeocodingLocation_def NewRequest_demoURL respond_def)

subsection \<open>The lookup command\<close>

text \<open>
  \<^verbatim>\<open>renderForecast\<close> prints to standard output; the text is returned. The action of
  the \<^verbatim>\<open>lookup\<close> command in \<^verbatim>\<open>populateCommands\<close> is \<open>lookupAction\<close>, and
  \<open>forecastFor\<close> is its part after the geocoding lookup: \<^verbatim>\<open>printError\<close> ends the
  process with the error, and \<^verbatim>\<open>geoResp.Results[0].Geometry.Location\<close> panics when the
  geometry is nil.
\<close>

definition renderForecast :: "Forecast \<Rightarrow> string \<Rightarrow> string" where
  "renderForecast fc addr =
     ''Displaying current forecast for '' @ addr @ [CHR 0x0A, CHR 0x0A]
     @ ''---Currently---'' @ [CHR 0x0A]
     @ ''Summary: '' @ Summary (Currently fc) @ [CHR 0x0A, CHR 0x0A]
     @ ''Temperature: '' @ Sprintf_2f (Temperature (Currently fc)) @ '' F'' @ [CHR 0x0A]
     @ ''Pressure: '' @ Sprintf_2f (Pressure (Currently fc)) @ '' kPa'' @ [CHR 0x0A]
     @ ''Wind Speed: '' @ Sprintf_2f (WindSpeed (Currently fc)) @ '' mph'' @ [CHR 0x0A]
     @ ''Precipitation Chance: '' @ Sprintf_2f (PrecipProbability (Currently fc)) @ ''%'' @ [CHR 0x0A]"

datatype outcome = Exit error | Crash | Printed string

definition forecastFor :: "geocodingResponse \<Rightarrow> string \<Rightarrow> world \<Rightarrow> outcome \<times> world" where
  "forecastFor geoResp addr w =
     (case Results geoResp of
        [] \<Rightarrow> (Crash, w)
      | r # _ \<Rightarrow>
          (case Geometry r of
             None \<Rightarrow> (Crash, w)
           | Some g \<Rightarrow>
               (case getForecast (Location g) w of
                  (Err err, w') \<Rightarrow> (Exit err, w')
                | (Panic, w') \<Rightarrow> (Crash, w')
                | (Ok fc, w') \<Rightarrow> (Printed (renderForecast fc addr), w'))))"

definition lookupAction :: "string list \<Rightarrow> Client \<Rightarrow> world \<Rightarrow> outcome \<times> world" where
  "lookupAction args client w =
     (if length args = 0 then (Exit MissingAddress, w)
      else
        let addr = hd args in
        case buildGeocodingURL ''http'' (parseGeocodingAddr addr) of
          Inl err \<Rightarrow> (Exit err, w)
        | Inr u \<Rightarrow>
            (case getGeocodingLocation client u of
               Err err \<Rightarrow> (Exit err, w)
             | Panic \<Rightarrow> (Crash, w)
             | Ok geoResp \<Rightarrow> forecastFor geoResp addr w))"

text \<open>
  Claim C1 fails on the code. For the body \<^verbatim>\<open>{"results":[{}]}\<close> the geocoding lookup
  returns without error a first result whose geometry is nil, and the rest of the
  command panics on it. For the body \<^verbatim>\<open>{"results":[{"geometry":{}}]}\<close> it returns a
  geometry whose location is nil; the nil location is handed to \<^verbatim>\<open>getForecast\<close>, which
  panics after the key has been resolved and written. For the body \<^verbatim>\<open>null\<close> the lookup
  itself panics.
\<close>

theorem nil_geometry_not_rejected:
  "getGeocodingLocation (respond 200 (JObject [(''results'', JArray [JObject []])])) demoURL
     = Ok \<lparr>Results = [\<lparr>Geometry = None\<rparr>]\<rparr>
   \<and> forecastFor \<lparr>Results = [\<lparr>Geometry = None\<rparr>]\<rparr> ''94109'' demoWorld = (Crash, demoWorld)
   \<and> getGeocodingLocation
       (respond 200 (JObject [(''results'', JArray [JObject [(''geometry'', JObject [])]])])) demoURL
     = Ok \<lparr>Results = [\<lparr>Geometry = Some \<lparr>Location = None\<rparr>\<rparr>]\<rparr>
   \<and> getForecast None demoWorld = (Panic, demoWorld)
   \<and> forecastFor \<lparr>Results = [\<lparr>Geometry = Some \<lparr>Location = None\<rparr>\<rparr>]\<rparr> ''94109'' demoWorld
     = (Crash, demoWorld)
   \<and> getGeocodingLocation (respond 200 JNull) demoURL = Panic"
proof -
  have g0: "getGeocodingLocation (respond 200 (JObject [(''results'', JArray [JObject []])])) demoURL
     = Ok \<lparr>Results = [\<lparr>Geometry = None\<rparr>]\<rparr>"
    by (simp add: getGeocodingLocation_def NewRequest_demoURL respond_def byte_def)
  have g1: "getGeocodingLocation
       (respond 200 (JObject [(''results'', JArray [JObject [(''geometry'', JObject [])]])])) demoURL
     = Ok \<lparr>Results = [\<lparr>Geometry = Some \<lparr>Location = None\<rparr>\<rparr>]\<rparr>"
    by (simp add: getGeocodingLocation_def NewRequest_demoURL respond_def byte_def)
  have g2: "getGeocodingLocation (respond 200 JNull) demoURL = Panic"
    by (simp add: getGeocodingLocation_def NewRequest_demoURL respond_def)
  have f: "getForecast None demoWorld = (Panic, demoWorld)"
    by (simp add: getForecast_def key_demo dump_demo)
  show ?thesis
    by (simp add: forecastFor_def g0 g1 g2 f)
qed

text \<open>
  Claim C2 fails on the code. For every address, \<^verbatim>\<open>buildGeocodingURL\<close> applied to
  \<^verbatim>\<open>"http"\<close> and the parameters of the address returns no URL but the error of
  \<^verbatim>\<open>Parse\<close> on the escaped slash of the host constant, and the \<^verbatim>\<open>lookup\<close> command ends
  with that error before any request is made. The two calls of the repository's test,
  with no parameters and with \<^verbatim>\<open>foo\<close> set to \<^verbatim>\<open>bar\<close> and \<^verbatim>\<open>baz\<close>, fail alike. Besides,
  \<^verbatim>\<open>parseGeocodingAddr\<close> escapes the address and \<^verbatim>\<open>Values.Encode\<close> escapes it again:
  for the address \<^verbatim>\<open>a b\<close> the stored value is \<^verbatim>\<open>a+b\<close>, and the query holds
  \<^verbatim>\<open>a%2Bb\<close>, which decodes to \<^verbatim>\<open>a+b\<close>.
\<close>

theorem geocoding_url_rejected:
  "buildGeocodingURL ''http'' (parseGeocodingAddr addr)
     = Inl (URLError (''http://maps.googleapis.com%2F/maps/api/geocode/json?address=''
                        @ QueryEscape (QueryEscape addr) @ ''&sensor=false'')
                     (EscapeError ''%2F''))
   \<and> lookupAction (addr # args) client w
     = (Exit (URLError (''http://maps.googleapis.com%2F/maps/api/geocode/json?address=''
                          @ QueryEscape (QueryEscape addr) @ ''&sensor=false'')
                       (EscapeError ''%2F'')), w)
   \<and> buildGeocodingURL ''http'' []
     = Inl (URLError ''http://maps.googleapis.com%2F/maps/api/geocode/json'' (EscapeError ''%2F''))
   \<and> buildGeocodingURL ''http'' [(''foo'', [''bar'', ''baz''])]
     = Inl (URLError ''http://maps.googleapis.com%2F/maps/api/geocode/json?foo=bar&foo=baz''
                     (EscapeError ''%2F''))
   \<and> parseGeocodingAddr ''a b'' = [(''address'', [''a+b'']), (''sensor'', [''false''])]
   \<and> Encode (parseGeocodingAddr ''a b'') = ''address=a%2Bb&sensor=false''
   \<and> QueryUnescape ''a%2Bb'' = Inr ''a+b''"
proof -
  have e1: "QueryEscape ''a b'' = ''a+b''"
    by (simp add: QueryEscape_def shouldEscape_def charDefs)
  have e2: "QueryEscape ''a+b'' = ''a%2Bb''"
    by (simp add: QueryEscape_def shouldEscape_def charDefs hexDigit_def)
  have foo: "Encode [(''foo'', [''bar'', ''baz''])] = ''foo=bar&foo=baz''"
    by code_simp
  have un: "QueryUnescape ''a%2Bb'' = Inr ''a+b''"
    by code_simp
  have nil: "buildGeocodingURL ''http'' []
     = Inl (URLError ''http://maps.googleapis.com%2F/maps/api/geocode/json'' (EscapeError ''%2F''))"
    by (simp add: buildGeocodingURL_fails [of "[]"])
  have two: "buildGeocodingURL ''http'' [(''foo'', [''bar'', ''baz''])]
     = Inl (URLError ''http://maps.googleapis.com%2F/maps/api/geocode/json?foo=bar&foo=baz''
                     (EscapeError ''%2F''))"
    by (simp add: buildGeocodingURL_fails [of "[(''foo'', [''bar'', ''baz''])]"] foo)
  have act: "lookupAction (addr # args) client w
     = (Exit (URLError (''http://maps.googleapis.com%2F/maps/api/geocode/json?address=''
                          @ QueryEscape (QueryEscape addr) @ ''&sensor=false'')
                       (EscapeError ''%2F'')), w)"
    by (simp add: lookupAction_def buildGeocodingURL_addr)
  have p: "parseGeocodingAddr ''a b'' = [(''address'', [''a+b'']), (''sensor'', [''false''])]"
    by (simp add: parseGeocodingAddr_eq e1)
  have enc: "Encode (parseGeocodingAddr ''a b'') = ''address=a%2Bb&sensor=false''"
    by (simp add: Encode_parseGeocodingAddr e1 e2)
  note b = buildGeocodingURL_addr [of addr]
  show ?thesis
    by (intro conjI) (rule b act nil two p enc un)+
qed

end
